theory Spec2Isabelle
  imports Complex_Main
begin

section \<open>JavaScript values of the JSON payloads\<close>

text \<open>
  The dashboard reads section times from JSON documents. A field is absent
  (\<open>undefined\<close>), \<open>null\<close>, or a number; every time field is a count of
  milliseconds (\<open>driver_time_ms\<close>, \<open>best_time_ms\<close>, ...), modelled as an
  \<open>int\<close>. \<open>NaN\<close> only arises as the result of arithmetic.
\<close>

datatype jsval = Undefined | Null | Num int | NaN

text \<open>\<open>x || 0\<close> used as a summand: every falsy value (absent, null, 0, NaN) counts 0.\<close>

fun or_zero :: "jsval \<Rightarrow> int" where
  "or_zero (Num n) = n"
| "or_zero Undefined = 0"
| "or_zero Null = 0"
| "or_zero NaN = 0"

text \<open>ToNumber: \<open>undefined\<close> becomes NaN (here \<open>None\<close>), \<open>null\<close> becomes 0.\<close>

fun to_number :: "jsval \<Rightarrow> int option" where
  "to_number Undefined = None"
| "to_number Null = Some 0"
| "to_number (Num n) = Some n"
| "to_number NaN = None"

text \<open>The binary minus of JavaScript on two such values.\<close>

definition js_minus :: "jsval \<Rightarrow> jsval \<Rightarrow> jsval" where
  "js_minus a b =
     (case to_number a of
        None \<Rightarrow> NaN
      | Some x \<Rightarrow> (case to_number b of None \<Rightarrow> NaN | Some y \<Rightarrow> Num (x - y)))"

section \<open>Section documents\<close>

text \<open>A section of a lap as \<open>/api/laps/<id>/sections\<close> delivers it.\<close>

record lap_section =
  section_name :: string
  driver_time_ms :: jsval
  best_lap_time_ms :: jsval
  best_possible_time_ms :: jsval

text \<open>A section of the best-case composite as \<open>/api/tracks/<id>/best-case\<close> delivers it.\<close>

record best_case_section =
  bc_section_name :: string
  best_time_ms :: jsval

section \<open>SectionPanel.jsx\<close>

text \<open>
  The \<open>Gap\<close> component: a dash for \<open>null\<close> and for everything \<open>isNaN\<close>
  accepts, otherwise a span with a sign, a class name and the value (printed by
  \<open>formatTime\<close> as seconds with three decimals; the value is kept in milliseconds).
\<close>

datatype gap_view = GapDash | GapSpan string string int

fun Gap :: "jsval \<Rightarrow> gap_view" where
  "Gap Null = GapDash"
| "Gap Undefined = GapDash"
| "Gap NaN = GapDash"
| "Gap (Num v) =
     GapSpan (if v > 0 then ''+'' else '''')
             (if v > 0 then ''gap-positive'' else (if v < 0 then ''gap-negative'' else ''''))
             v"

text \<open>
  \<open>formatTime\<close> of SectionPanel is \<open>(ms / 1000).toFixed(3)\<close>: the milliseconds
  printed as seconds, \<open>None\<close> where JavaScript prints \<open>NaN\<close>.
\<close>

definition formatTime :: "jsval \<Rightarrow> int option" where
  "formatTime ms = to_number ms"

record time_row =
  time_label :: string
  time_value :: "int option"
  row_gap :: gap_view

datatype panel_view =
    SectionSkeleton
  | CompositePanel string "int option"
  | RegularPanel string "time_row list"

text \<open>
  The three rows of the regular lap mode (current lap, the driver's best, the
  optimum over all drivers); of the simplified composite mode the section name and
  the optimal time are kept.
\<close>

definition SectionPanel :: "lap_section option \<Rightarrow> bool \<Rightarrow> panel_view" where
  "SectionPanel sec isComposite =
     (case sec of
        None \<Rightarrow> SectionSkeleton
      | Some s \<Rightarrow>
          (let driverTime = driver_time_ms s;
               bestLapTime = best_lap_time_ms s;
               bestPossibleTime = best_possible_time_ms s
           in if isComposite then CompositePanel (section_name s) (formatTime driverTime)
              else RegularPanel (section_name s)
                [\<lparr>time_label = ''Current Lap:'', time_value = formatTime driverTime,
                   row_gap = Gap Null\<rparr>,
                 \<lparr>time_label = ''My Best ('' @ section_name s @ ''):'',
                   time_value = formatTime bestLapTime,
                   row_gap = Gap (js_minus driverTime bestLapTime)\<rparr>,
                 \<lparr>time_label = ''Optimal (All Drivers):'',
                   time_value = formatTime bestPossibleTime,
                   row_gap = Gap (js_minus driverTime bestPossibleTime)\<rparr>]))"

section \<open>TotalLapTimeComparison.jsx\<close>

text \<open>\<open>formatGap\<close>: as \<open>Gap\<close>, with \<open>undefined\<close> tested explicitly.\<close>

fun formatGap :: "jsval \<Rightarrow> gap_view" where
  "formatGap Null = GapDash"
| "formatGap Undefined = GapDash"
| "formatGap NaN = GapDash"
| "formatGap (Num ms) =
     GapSpan (if ms > 0 then ''+'' else '''')
             (if ms > 0 then ''gap-positive'' else (if ms < 0 then ''gap-negative'' else ''''))
             ms"

text \<open>\<open>sections.reduce((sum, section) => sum + (section.driver_time_ms || 0), 0)\<close>\<close>

definition driverTotalTime :: "lap_section list \<Rightarrow> int" where
  "driverTotalTime sections = foldl (\<lambda>sum s. sum + or_zero (driver_time_ms s)) 0 sections"

text \<open>
  The optimal total: the section times themselves when the composite is viewed,
  the best-case sections when there are any (\<open>None\<close> is an absent prop), and
  \<open>best_possible_time_ms\<close> of the lap's sections otherwise.
\<close>

definition optimalTotalTime :: "lap_section list \<Rightarrow> best_case_section list option \<Rightarrow> bool \<Rightarrow> int" where
  "optimalTotalTime sections bestCaseSections isComposite =
     (if isComposite then
        foldl (\<lambda>sum s. sum + or_zero (driver_time_ms s)) 0 sections
      else (case bestCaseSections of
              Some (b # bs) \<Rightarrow> foldl (\<lambda>sum s. sum + or_zero (best_time_ms s)) 0 (b # bs)
            | _ \<Rightarrow> foldl (\<lambda>sum s. sum + or_zero (best_possible_time_ms s)) 0 sections))"

definition timeGap :: "lap_section list \<Rightarrow> best_case_section list option \<Rightarrow> bool \<Rightarrow> int" where
  "timeGap sections bestCaseSections isComposite =
     driverTotalTime sections - optimalTotalTime sections bestCaseSections isComposite"

text \<open>
  The panel: the two totals (printed by \<open>formatTime\<close> as minutes and seconds,
  kept here in milliseconds) and the gap.
\<close>

record comparison_view =
  driver_total :: int
  optimal_total :: int
  total_gap :: gap_view

text \<open>The component renders nothing (\<open>None\<close>) when both totals are 0.\<close>

definition TotalLapTimeComparison ::
  "lap_section list \<Rightarrow> best_case_section list option \<Rightarrow> bool \<Rightarrow> comparison_view option" where
  "TotalLapTimeComparison sections bestCaseSections isComposite =
     (if driverTotalTime sections = 0 \<and> optimalTotalTime sections bestCaseSections isComposite = 0
      then None
      else Some \<lparr>driver_total = driverTotalTime sections,
                 optimal_total = optimalTotalTime sections bestCaseSections isComposite,
                 total_gap = formatGap (Num (timeGap sections bestCaseSections isComposite))\<rparr>)"

section \<open>LapReview: the playback state\<close>

text \<open>
  \<open>currentSectionIndex\<close> and \<open>isPlaying\<close> of the LapReview component. The list of
  sections comes from the lap data and is a parameter of every handler.
\<close>

record playback =
  currentSectionIndex :: int
  isPlaying :: bool

definition initial_playback :: playback where
  "initial_playback = \<lparr>currentSectionIndex = 0, isPlaying = False\<rparr>"

text \<open>\<open>Array.prototype.findIndex\<close>: the first index that satisfies the test, or -1.\<close>

fun findIndex :: "('a \<Rightarrow> bool) \<Rightarrow> 'a list \<Rightarrow> int" where
  "findIndex p [] = - 1"
| "findIndex p (x # xs) =
     (if p x then 0 else (let i = findIndex p xs in if i = - 1 then - 1 else i + 1))"

text \<open>
  The callback of the playback interval. The interval only exists while
  \<open>isPlaying && sections.length > 0\<close>; without it a tick changes nothing.
\<close>

definition playback_tick :: "lap_section list \<Rightarrow> playback \<Rightarrow> playback" where
  "playback_tick sections st =
     (if isPlaying st \<and> length sections > 0 then
        (if currentSectionIndex st \<ge> int (length sections) - 1
         then st\<lparr>isPlaying := False\<rparr>
         else st\<lparr>currentSectionIndex := currentSectionIndex st + 1\<rparr>)
      else st)"

definition handlePlayPause :: "lap_section list \<Rightarrow> playback \<Rightarrow> playback" where
  "handlePlayPause sections st =
     (if length sections = 0 then st
      else if isPlaying st then st\<lparr>isPlaying := False\<rparr>
      else (if currentSectionIndex st \<ge> int (length sections) - 1
            then st\<lparr>currentSectionIndex := 0, isPlaying := True\<rparr>
            else st\<lparr>isPlaying := True\<rparr>))"

definition handleStep :: "lap_section list \<Rightarrow> int \<Rightarrow> playback \<Rightarrow> playback" where
  "handleStep sections direction st =
     (let newIndex = currentSectionIndex st + direction
      in if newIndex \<ge> 0 \<and> newIndex < int (length sections)
         then st\<lparr>isPlaying := False, currentSectionIndex := newIndex\<rparr>
         else st\<lparr>isPlaying := False\<rparr>)"

definition handleSectionClick :: "lap_section list \<Rightarrow> string \<Rightarrow> playback \<Rightarrow> playback" where
  "handleSectionClick sections sectionName st =
     (let index = findIndex (\<lambda>s. section_name s = sectionName) sections
      in if index \<noteq> - 1
         then st\<lparr>currentSectionIndex := index, isPlaying := False\<rparr>
         else st)"

text \<open>
  What can happen to the playback state while one lap's sections are shown: the
  play/pause button, the previous and next buttons (\<open>handleStep(-1)\<close>,
  \<open>handleStep(1)\<close>), a click on a section of the map, and a tick of the interval.
\<close>

datatype playback_action = PlayPause | Step int | SectionClick string | Tick

fun playback_step :: "lap_section list \<Rightarrow> playback \<Rightarrow> playback_action \<Rightarrow> playback" where
  "playback_step sections st PlayPause = handlePlayPause sections st"
| "playback_step sections st (Step direction) = handleStep sections direction st"
| "playback_step sections st (SectionClick sectionName) = handleSectionClick sections sectionName st"
| "playback_step sections st Tick = playback_tick sections st"

definition playback_run :: "lap_section list \<Rightarrow> playback_action list \<Rightarrow> playback" where
  "playback_run sections actions = foldl (playback_step sections) initial_playback actions"

section \<open>RaceSelector\<close>

text \<open>
  The value of a select box: the id of a track, race, driver or lap, a string or
  a number. The empty string (no choice) and the number 0 are falsy.
\<close>

datatype jsid = Str string | Number int

fun truthy :: "jsid \<Rightarrow> bool" where
  "truthy (Str s) = (s \<noteq> [])"
| "truthy (Number n) = (n \<noteq> 0)"

text \<open>
  What the component reads from the fetched documents: the name of a track in
  \<open>tracks\<close> (empty when there is none), the name of the track in the race
  context, and the \<open>lap_number\<close> of a driver's lap in the race context.
\<close>

record api_data =
  track_name_of :: "jsid \<Rightarrow> string"
  context_track_name :: string
  lap_number_of :: "jsid \<Rightarrow> jsid \<Rightarrow> jsval"

record race_selector =
  selectedTrack :: jsid
  selectedRace :: jsid
  selectedDriver :: jsid
  selectedLap :: jsid
  isComposite :: bool
  fetched :: api_data

text \<open>The selection object handed to the parent (\<open>sel_isComposite\<close> is its field \<open>isComposite\<close>).\<close>

record selection =
  trackId :: jsid
  raceId :: "jsid option"
  driverId :: "jsid option"
  lapId :: "jsid option"
  lapNumber :: jsval
  sel_isComposite :: bool

text \<open>
  The calls of the three callbacks the parent passes (LapReview passes all of
  them): \<open>onSelectionChange\<close>, \<open>onTrackChange\<close>, \<open>onTrackNameChange\<close>.
\<close>

datatype emission =
    OnSelectionChange "selection option"
  | OnTrackChange "jsid option"
  | OnTrackNameChange string

definition initial_selector :: "api_data \<Rightarrow> race_selector" where
  "initial_selector d =
     \<lparr>selectedTrack = Str [], selectedRace = Str [], selectedDriver = Str [],
      selectedLap = Str [], isComposite = False, fetched = d\<rparr>"

definition handleTrackChange :: "jsid \<Rightarrow> race_selector \<Rightarrow> race_selector \<times> emission list" where
  "handleTrackChange newTrackId st =
     (st\<lparr>selectedTrack := newTrackId, selectedRace := Str [], selectedDriver := Str [],
         selectedLap := Str [], isComposite := False\<rparr>,
      [OnSelectionChange None] @
      (if truthy newTrackId then
         [OnTrackChange (Some newTrackId)] @
         (let trackName = track_name_of (fetched st) newTrackId
          in if trackName \<noteq> [] then [OnTrackNameChange trackName] else [])
       else [OnTrackChange None, OnTrackNameChange []]))"

definition handleRaceChange :: "jsid \<Rightarrow> race_selector \<Rightarrow> race_selector \<times> emission list" where
  "handleRaceChange v st =
     (st\<lparr>selectedRace := v, selectedDriver := Str [], selectedLap := Str [],
         isComposite := False\<rparr>,
      [OnSelectionChange None])"

definition handleDriverChange :: "jsid \<Rightarrow> race_selector \<Rightarrow> race_selector \<times> emission list" where
  "handleDriverChange v st =
     (if v = Str ''composite'' then
        (st\<lparr>isComposite := True, selectedDriver := Str [], selectedLap := Str []\<rparr>, [])
      else
        (st\<lparr>isComposite := False, selectedDriver := v, selectedLap := Str []\<rparr>,
         [OnSelectionChange None]))"

definition handleLapChange :: "jsid \<Rightarrow> race_selector \<Rightarrow> race_selector \<times> emission list" where
  "handleLapChange lap st = (st\<lparr>selectedLap := lap\<rparr>, [])"

text \<open>The effect that notifies the parent of the final, complete selection.\<close>

definition notify_effect :: "race_selector \<Rightarrow> emission list" where
  "notify_effect st =
     (if isComposite st \<and> truthy (selectedTrack st) then
        [OnSelectionChange (Some
           \<lparr>trackId = selectedTrack st,
            raceId = (if truthy (selectedRace st) then Some (selectedRace st) else None),
            driverId = None, lapId = None, lapNumber = Undefined, sel_isComposite = True\<rparr>)] @
        (let trackName = track_name_of (fetched st) (selectedTrack st)
         in if trackName \<noteq> [] then [OnTrackNameChange trackName] else [])
      else if truthy (selectedTrack st) \<and> truthy (selectedRace st) \<and>
              truthy (selectedDriver st) \<and> truthy (selectedLap st) then
        [OnSelectionChange (Some
           \<lparr>trackId = selectedTrack st, raceId = Some (selectedRace st),
            driverId = Some (selectedDriver st), lapId = Some (selectedLap st),
            lapNumber = lap_number_of (fetched st) (selectedDriver st) (selectedLap st),
            sel_isComposite = False\<rparr>)] @
        (let trackName =
               (if context_track_name (fetched st) \<noteq> [] then context_track_name (fetched st)
                else track_name_of (fetched st) (selectedTrack st))
         in if trackName \<noteq> [] then [OnTrackNameChange trackName] else [])
      else [])"

text \<open>
  The effect runs again after a render in which one of its dependencies differs:
  one of the five state variables, or the fetched data.
\<close>

definition selection_changed :: "race_selector \<Rightarrow> race_selector \<Rightarrow> bool" where
  "selection_changed st st' =
     (selectedTrack st \<noteq> selectedTrack st' \<or> selectedRace st \<noteq> selectedRace st' \<or>
      selectedDriver st \<noteq> selectedDriver st' \<or> selectedLap st \<noteq> selectedLap st' \<or>
      isComposite st \<noteq> isComposite st')"

definition after_handler ::
  "race_selector \<Rightarrow> race_selector \<times> emission list \<Rightarrow> race_selector \<times> emission list" where
  "after_handler st r =
     (fst r, snd r @ (if selection_changed st (fst r) then notify_effect (fst r) else []))"

datatype selector_event =
    TrackChange jsid
  | RaceChange jsid
  | DriverChange jsid
  | LapChange jsid
  | DataFetched api_data

fun selector_step :: "race_selector \<Rightarrow> selector_event \<Rightarrow> race_selector \<times> emission list" where
  "selector_step st (TrackChange v) = after_handler st (handleTrackChange v st)"
| "selector_step st (RaceChange v) = after_handler st (handleRaceChange v st)"
| "selector_step st (DriverChange v) = after_handler st (handleDriverChange v st)"
| "selector_step st (LapChange v) = after_handler st (handleLapChange v st)"
| "selector_step st (DataFetched d) = (st\<lparr>fetched := d\<rparr>, notify_effect (st\<lparr>fetched := d\<rparr>))"

text \<open>A run from the mounted component: the final state and everything emitted, in order.\<close>

fun selector_run ::
  "race_selector \<times> emission list \<Rightarrow> selector_event list \<Rightarrow> race_selector \<times> emission list" where
  "selector_run acc [] = acc"
| "selector_run acc (e # es) =
     selector_run (fst (selector_step (fst acc) e), snd acc @ snd (selector_step (fst acc) e)) es"

definition mounted :: "api_data \<Rightarrow> race_selector \<times> emission list" where
  "mounted d = (initial_selector d, notify_effect (initial_selector d))"

text \<open>The arguments of the \<open>onSelectionChange\<close> calls among the emissions.\<close>

fun selections :: "emission list \<Rightarrow> selection option list" where
  "selections [] = []"
| "selections (OnSelectionChange s # es) = s # selections es"
| "selections (OnTrackChange t # es) = selections es"
| "selections (OnTrackNameChange n # es) = selections es"

section \<open>useApi.js\<close>

text \<open>
  The state of the hook: \<open>data\<close> (\<open>None\<close> is \<open>null\<close>), \<open>loading\<close> and
  \<open>error\<close> (\<open>None\<close> is \<open>null\<close>).
\<close>

record 'a api_state =
  data :: "'a option"
  loading :: bool
  error :: "string option"

definition initial_api_state :: "'a api_state" where
  "initial_api_state = \<lparr>data = None, loading = False, error = None\<rparr>"

text \<open>
  How a request ends: with the body of a response, with an error that may carry
  \<open>response.data.detail\<close>, or cancelled by the abort controller.
\<close>

datatype 'a fetch_result = Response 'a | Failure "string option" | Cancelled

text \<open>The effect for an endpoint that is \<open>null\<close>.\<close>

definition useApi_no_endpoint :: "'a api_state \<Rightarrow> 'a api_state" where
  "useApi_no_endpoint st = st\<lparr>data := None\<rparr>"

text \<open>
  \<open>fetchData\<close> begins with \<open>setLoading(true); setError(null)\<close> and ends with the
  outcome of the request (\<open>err.response?.data?.detail || 'Failed to fetch data.'\<close>
  for an error that is not a cancellation) and \<open>setLoading(false)\<close>.
\<close>

definition fetch_begin :: "'a api_state \<Rightarrow> 'a api_state" where
  "fetch_begin st = st\<lparr>loading := True, error := None\<rparr>"

definition fetch_end :: "'a fetch_result \<Rightarrow> 'a api_state \<Rightarrow> 'a api_state" where
  "fetch_end r st =
     (case r of
        Response d \<Rightarrow> st\<lparr>data := Some d\<rparr>
      | Failure detail \<Rightarrow>
          st\<lparr>error := Some (case detail of
                              None \<Rightarrow> ''Failed to fetch data.''
                            | Some d \<Rightarrow> (if d = [] then ''Failed to fetch data.'' else d))\<rparr>
      | Cancelled \<Rightarrow> st)\<lparr>loading := False\<rparr>"

definition fetchData :: "'a fetch_result \<Rightarrow> 'a api_state \<Rightarrow> 'a api_state" where
  "fetchData r st = fetch_end r (fetch_begin st)"

section \<open>DraggableRecommendationPanel\<close>

text \<open>The body of a response: a JSON array of documents, or anything else.\<close>

datatype 'r payload = JArray "'r list" | NotArray

text \<open>
  \<open>recommendations && Array.isArray(recommendations) && recommendations.length > 0
     ? recommendations[0] : null\<close>
\<close>

definition first_recommendation :: "'r payload option \<Rightarrow> 'r option" where
  "first_recommendation recommendations =
     (case recommendations of
        Some (JArray (r # rs)) \<Rightarrow> Some r
      | _ \<Rightarrow> None)"

text \<open>
  The four blocks of the panel's content area, each under its own condition: the
  loading line, the error block, the recommendation, and the block
  ``No AI analysis available''. What a recommendation renders to is \<open>render\<close>;
  an error is shown when the error string is truthy.
\<close>

fun truthy_text :: "string option \<Rightarrow> bool" where
  "truthy_text None = False"
| "truthy_text (Some e) = (e \<noteq> [])"

record 'v recommendation_panel =
  loading_shown :: bool
  error_shown :: bool
  recommendation_shown :: "'v option"
  no_analysis_shown :: bool

definition DraggableRecommendationPanel ::
  "('r \<Rightarrow> 'v) \<Rightarrow> string \<Rightarrow> 'r payload api_state \<Rightarrow> 'v recommendation_panel option" where
  "DraggableRecommendationPanel render recommendationType api =
     (let recommendation = first_recommendation (data api)
      in if recommendationType = [] then None
         else Some \<lparr>loading_shown = loading api,
                    error_shown = truthy_text (error api),
                    recommendation_shown = map_option render recommendation,
                    no_analysis_shown =
                      (\<not> loading api \<and> \<not> truthy_text (error api) \<and>
                       recommendation = None)\<rparr>)"

subsection \<open>Strings and fields of the documents\<close>

text \<open>
  The text of a document is a JavaScript string, a sequence of UTF-16 code units;
  \<open>js\<close> gives the code units of an ASCII literal.
\<close>

type_synonym jsstring = "nat list"

definition js :: "string \<Rightarrow> jsstring" where
  "js s = map of_char s"

text \<open>\<open>String.prototype.includes\<close>, which compares code units.\<close>

fun starts_with :: "jsstring \<Rightarrow> jsstring \<Rightarrow> bool" where
  "starts_with s [] = True"
| "starts_with [] (p # ps) = False"
| "starts_with (c # cs) (p # ps) = (c = p \<and> starts_with cs ps)"

fun includes_str :: "jsstring \<Rightarrow> jsstring \<Rightarrow> bool" where
  "includes_str [] p = (p = [])"
| "includes_str (c # cs) p = (starts_with (c # cs) p \<or> includes_str cs p)"

text \<open>
  What \<open>String.prototype.trim\<close> strips at both ends, the white space and the line
  terminators of ECMAScript: TAB, LF, VT, FF, CR, SP, NBSP (U+00A0), U+1680,
  U+2000 to U+200A, U+2028, U+2029, U+202F, U+205F, U+3000 and U+FEFF.
\<close>

definition white_space :: "nat \<Rightarrow> bool" where
  "white_space c =
     (c \<in> set [0x09, 0x0A, 0x0B, 0x0C, 0x0D, 0x20, 0xA0, 0x1680, 0x2028, 0x2029, 0x202F,
                0x205F, 0x3000, 0xFEFF] \<or>
      (0x2000 \<le> c \<and> c \<le> 0x200A))"

definition trim :: "jsstring \<Rightarrow> jsstring" where
  "trim s = rev (dropWhile white_space (rev (dropWhile white_space s)))"

text \<open>A field of a JSON document: absent (\<open>undefined\<close>), \<open>null\<close>, or a value.\<close>

datatype 'a field = Absent | IsNull | Val 'a

text \<open>\<open>Number(x)\<close> of a numeric field; \<open>None\<close> is NaN.\<close>

fun Number_of :: "real field \<Rightarrow> real option" where
  "Number_of Absent = None"
| "Number_of IsNull = Some 0"
| "Number_of (Val x) = Some x"

text \<open>\<open>a || b\<close> on numeric fields: \<open>a\<close> when it is a number other than 0.\<close>

fun truthy_number :: "real field \<Rightarrow> bool" where
  "truthy_number (Val x) = (x \<noteq> 0)"
| "truthy_number Absent = False"
| "truthy_number IsNull = False"

definition or_number :: "real field \<Rightarrow> real field \<Rightarrow> real field" where
  "or_number a b = (if truthy_number a then a else b)"

text \<open>The string of a text field when the field is truthy, the empty string otherwise.\<close>

definition text_of :: "'a list field \<Rightarrow> 'a list" where
  "text_of f = (case f of Val t \<Rightarrow> t | _ \<Rightarrow> [])"

subsection \<open>The recommendation documents\<close>

record weather_summary =
  avg_air_temp_celsius :: "real field"
  min_air_temp_celsius :: "real field"
  max_air_temp_celsius :: "real field"
  avg_track_temp_celsius :: "real field"
  avg_humidity_percent :: "real field"
  avg_wind_speed :: "real field"
  max_wind_speed :: "real field"
  rain_detected :: "bool field"

text \<open>
  The lap statistics of a pattern document, which the panel reads from
  \<open>structured_data.consistency_analysis\<close> and from \<open>structured_data\<close> itself.
\<close>

record lap_statistics =
  lap_count :: "real field"
  mean_lap_time_s :: "real field"
  std_lap_time_s :: "real field"
  consistency_score :: "real field"
  min_lap_time_s :: "real field"
  max_lap_time_s :: "real field"
  min_lap_number :: "real field"
  max_lap_number :: "real field"

text \<open>
  \<open>structured_data\<close>: the members the panel reads for the weather and the pattern
  analysis (\<open>own_statistics\<close> holds \<open>data.lap_count\<close>, \<open>data.mean_lap_time_s\<close>, ...).
  What else the object holds, the coaching insights, is the extension of the
  record.
\<close>

record structured_data =
  data_points :: "int field"
  consistency_analysis :: "lap_statistics option"
  own_statistics :: lap_statistics

record section_statistics =
  consistency :: "string field"
  mean_time_s :: "real field"
  std_time_s :: "real field"
  min_time_s :: "real field"
  max_time_s :: "real field"

text \<open>
  \<open>section_patterns\<close>: the two arrays (\<open>None\<close> when there is no array) and the
  entries of the object \<open>section_analysis\<close> (\<open>None\<close> when there is no object; the
  data of an entry is \<open>None\<close> when it is not an object).
\<close>

record section_patterns =
  strengths :: "string list option"
  weaknesses :: "string list option"
  section_analysis :: "(string \<times> section_statistics option) list option"

record trends =
  consistency_trend :: "string field"
  improvement_trend :: "string field"

text \<open>
  A recommendation document. The objects \<open>structured_data\<close>, \<open>weather_summary\<close>,
  \<open>trends\<close> and \<open>section_patterns\<close> are \<open>None\<close> when absent or \<open>null\<close>.
\<close>

record 'm recommendation =
  recommendation_text :: "jsstring field"
  analysis_text :: "jsstring field"
  structured_data_of :: "'m structured_data_scheme option"
  weather_summary_of :: "weather_summary option"
  trends_of :: "trends option"
  section_patterns_of :: "section_patterns option"
  confidence_score :: "real field"

subsection \<open>The weather-impact analysis\<close>

text \<open>\<open>recommendation.weather_summary || {}\<close>\<close>

definition empty_summary :: weather_summary where
  "empty_summary =
     \<lparr>avg_air_temp_celsius = Absent, min_air_temp_celsius = Absent,
      max_air_temp_celsius = Absent, avg_track_temp_celsius = Absent,
      avg_humidity_percent = Absent, avg_wind_speed = Absent, max_wind_speed = Absent,
      rain_detected = Absent\<rparr>"

text \<open>
  The condition under which the text of the analysis is shown above the weather
  conditions, and the text shown.
\<close>

definition weather_narrative :: "'m recommendation \<Rightarrow> jsstring option" where
  "weather_narrative r =
     (case recommendation_text r of
        Val t \<Rightarrow>
          (if t \<noteq> [] \<and> trim t \<noteq> [] \<and>
              \<not> includes_str t
                  (js ''While detailed correlation analysis requires time-aligned lap data'') \<and>
              \<not> includes_str t (js ''Air temperature averaged'')
           then Some t else None)
      | _ \<Rightarrow> None)"

text \<open>
  The block ``Weather Conditions'': each line is there when its field is not
  \<open>undefined\<close>; the numbers are kept as \<open>Number(x)\<close> gives them (printed with
  one decimal).
\<close>

record conditions_view =
  air_temperature :: "(real option \<times> (real option \<times> real option) option) option"
  track_temperature :: "real option option"
  humidity :: "real option option"
  wind_speed :: "(real option \<times> real option option) option"
  no_rain_line :: bool

definition weather_conditions :: "weather_summary \<Rightarrow> conditions_view option" where
  "weather_conditions weatherSummary =
     (if avg_air_temp_celsius weatherSummary \<noteq> Absent \<or>
         avg_humidity_percent weatherSummary \<noteq> Absent \<or>
         avg_wind_speed weatherSummary \<noteq> Absent
      then Some
        \<lparr>air_temperature =
           (if avg_air_temp_celsius weatherSummary \<noteq> Absent
            then Some (Number_of (avg_air_temp_celsius weatherSummary),
                       (if min_air_temp_celsius weatherSummary \<noteq> Absent \<and>
                           max_air_temp_celsius weatherSummary \<noteq> Absent
                        then Some (Number_of (min_air_temp_celsius weatherSummary),
                                   Number_of (max_air_temp_celsius weatherSummary))
                        else None))
            else None),
         track_temperature =
           (if avg_track_temp_celsius weatherSummary \<noteq> Absent
            then Some (Number_of (avg_track_temp_celsius weatherSummary)) else None),
         humidity =
           (if avg_humidity_percent weatherSummary \<noteq> Absent
            then Some (Number_of (avg_humidity_percent weatherSummary)) else None),
         wind_speed =
           (if avg_wind_speed weatherSummary \<noteq> Absent
            then Some (Number_of (avg_wind_speed weatherSummary),
                       (if max_wind_speed weatherSummary \<noteq> Absent
                        then Some (Number_of (max_wind_speed weatherSummary)) else None))
            else None),
         no_rain_line = (rain_detected weatherSummary = Val False)\<rparr>
      else None)"

text \<open>
  What the panel shows of a weather-impact document with \<open>structured_data\<close>: the
  text of the analysis, the weather conditions and the number of data points
  (\<open>Absent\<close>: no such line).
\<close>

record weather_view =
  narrative :: "jsstring option"
  conditions :: "conditions_view option"
  data_points_caption :: "int field"

definition weather_content :: "'m recommendation \<Rightarrow> 'm structured_data_scheme \<Rightarrow> weather_view" where
  "weather_content r d =
     (let weatherSummary =
            (case weather_summary_of r of None \<Rightarrow> empty_summary | Some w \<Rightarrow> w)
      in \<lparr>narrative = weather_narrative r,
          conditions = weather_conditions weatherSummary,
          data_points_caption = data_points d\<rparr>)"

subsection \<open>The driver pattern analysis\<close>

text \<open>\<open>data.consistency_analysis || {}\<close>, \<open>recommendation.trends || {}\<close>,
  \<open>recommendation.section_patterns || {}\<close>\<close>

definition empty_statistics :: lap_statistics where
  "empty_statistics =
     \<lparr>lap_count = Absent, mean_lap_time_s = Absent, std_lap_time_s = Absent,
      consistency_score = Absent, min_lap_time_s = Absent, max_lap_time_s = Absent,
      min_lap_number = Absent, max_lap_number = Absent\<rparr>"

definition empty_trends :: trends where
  "empty_trends = \<lparr>consistency_trend = Absent, improvement_trend = Absent\<rparr>"

definition empty_patterns :: section_patterns where
  "empty_patterns = \<lparr>strengths = None, weaknesses = None, section_analysis = None\<rparr>"

text \<open>
  A line ``Best Lap'' or ``Worst Lap'': the time as \<open>Number(a || b)\<close> gives it, and the
  lap number \<open>a || b\<close> when one of the two lap numbers is not \<open>undefined\<close>.
\<close>

record lap_line =
  lap_time :: "real option"
  lap_number :: "real field option"

text \<open>
  \<open>(min) && (max) && (<Typography>Range: ...)\<close>: nothing for \<open>null\<close> and
  \<open>undefined\<close>, the text 0 when the first falsy operand is the number 0,
  otherwise the range line of the maximum and the minimum (their difference is
  printed).
\<close>

datatype range_view = NoRange | ZeroText | RangeOf real real

fun range_line :: "real field \<Rightarrow> real field \<Rightarrow> range_view" where
  "range_line (Val a) maxTime =
     (if a = 0 then ZeroText
      else (case maxTime of
              Val b \<Rightarrow> (if b = 0 then ZeroText else RangeOf b a)
            | _ \<Rightarrow> NoRange))"
| "range_line Absent maxTime = NoRange"
| "range_line IsNull maxTime = NoRange"

record best_worst_view =
  best_lap :: lap_line
  worst_lap :: lap_line
  lap_range :: range_view

text \<open>
  The performance metrics: each line is there (\<open>Some\<close>) under its condition. The
  count is kept as the field \<open>String\<close> is applied to, the times as \<open>Number\<close> gives
  them (printed with three decimals), the score as the number that is printed as
  a percentage.
\<close>

record metrics_view =
  laps_analyzed :: "real field option"
  average_lap_time :: "real option option"
  std_dev :: "real option option"
  score_shown :: "real option"
  best_worst :: "best_worst_view option"

definition performance_metrics :: "lap_statistics \<Rightarrow> lap_statistics \<Rightarrow> metrics_view" where
  "performance_metrics consistencyAnalysis d =
     \<lparr>laps_analyzed =
        (if lap_count consistencyAnalysis \<noteq> Absent \<or> lap_count d \<noteq> Absent
         then Some (or_number (lap_count consistencyAnalysis) (lap_count d)) else None),
      average_lap_time =
        (if mean_lap_time_s consistencyAnalysis \<noteq> Absent \<or> mean_lap_time_s d \<noteq> Absent
         then Some (Number_of (or_number (mean_lap_time_s consistencyAnalysis) (mean_lap_time_s d)))
         else None),
      std_dev =
        (if std_lap_time_s consistencyAnalysis \<noteq> Absent \<or> std_lap_time_s d \<noteq> Absent
         then Some (Number_of (or_number (std_lap_time_s consistencyAnalysis) (std_lap_time_s d)))
         else None),
      score_shown =
        (let score = (if consistency_score consistencyAnalysis \<noteq> Absent
                      then consistency_score consistencyAnalysis else consistency_score d)
         in case score of
              Val scoreNum \<Rightarrow> (if scoreNum \<ge> 0 then Some scoreNum else None)
            | _ \<Rightarrow> None),
      best_worst =
        (if (min_lap_time_s consistencyAnalysis \<noteq> Absent \<and>
             max_lap_time_s consistencyAnalysis \<noteq> Absent) \<or>
            (min_lap_time_s d \<noteq> Absent \<and> max_lap_time_s d \<noteq> Absent)
         then Some
           \<lparr>best_lap =
              \<lparr>lap_time =
                 Number_of (or_number (min_lap_time_s consistencyAnalysis) (min_lap_time_s d)),
               lap_number =
                 (if min_lap_number consistencyAnalysis \<noteq> Absent \<or> min_lap_number d \<noteq> Absent
                  then Some (or_number (min_lap_number consistencyAnalysis) (min_lap_number d))
                  else None)\<rparr>,
            worst_lap =
              \<lparr>lap_time =
                 Number_of (or_number (max_lap_time_s consistencyAnalysis) (max_lap_time_s d)),
               lap_number =
                 (if max_lap_number consistencyAnalysis \<noteq> Absent \<or> max_lap_number d \<noteq> Absent
                  then Some (or_number (max_lap_number consistencyAnalysis) (max_lap_number d))
                  else None)\<rparr>,
            lap_range =
              range_line (or_number (min_lap_time_s consistencyAnalysis) (min_lap_time_s d))
                (or_number (max_lap_time_s consistencyAnalysis) (max_lap_time_s d))\<rparr>
         else None)\<rparr>"

text \<open>
  An entry of the section-by-section analysis: the name, the consistency
  (\<open>sectionData.consistency || 'unknown'\<close>) with its colour, and, when the mean
  is not \<open>undefined\<close>, the mean, the standard deviation when it is not
  \<open>undefined\<close>, and the range when neither bound is.
\<close>

record section_line =
  line_name :: string
  line_consistency :: string
  line_color :: string
  line_statistics :: "(real option \<times> real option option \<times> (real option \<times> real option) option) option"

definition section_line_of :: "string \<Rightarrow> section_statistics \<Rightarrow> section_line" where
  "section_line_of sectionName sectionData =
     (let consistency = (if text_of (consistency sectionData) \<noteq> []
                         then text_of (consistency sectionData) else ''unknown'')
      in \<lparr>line_name = sectionName,
          line_consistency = consistency,
          line_color = (if consistency = ''high'' then ''success.main''
                        else if consistency = ''moderate'' then ''warning.main''
                        else ''error.main''),
          line_statistics =
            (if mean_time_s sectionData \<noteq> Absent
             then Some (Number_of (mean_time_s sectionData),
                        (if std_time_s sectionData \<noteq> Absent
                         then Some (Number_of (std_time_s sectionData)) else None),
                        (if min_time_s sectionData \<noteq> Absent \<and> max_time_s sectionData \<noteq> Absent
                         then Some (Number_of (min_time_s sectionData),
                                    Number_of (max_time_s sectionData))
                         else None))
             else None)\<rparr>)"

text \<open>The entries that render to something: those whose data is an object.\<close>

fun section_lines :: "(string \<times> section_statistics option) list \<Rightarrow> section_line list" where
  "section_lines [] = []"
| "section_lines ((sectionName, None) # es) = section_lines es"
| "section_lines ((sectionName, Some sectionData) # es) =
     section_line_of sectionName sectionData # section_lines es"

text \<open>
  What the panel shows of a pattern document with \<open>structured_data\<close>: the
  performance metrics; the trends (each one when truthy); the strengths and the
  weaknesses (when the array is not empty); the section-by-section analysis (when
  the object has a key); the caption under the consistency analysis; and the hint
  at the coaching insights when there are no strengths, weaknesses or trends.
\<close>

record pattern_view =
  metrics :: metrics_view
  trends_block :: "(string option \<times> string option) option"
  strengths_block :: "string list option"
  weaknesses_block :: "string list option"
  section_analysis_block :: "section_line list option"
  variance_caption :: bool
  coaching_hint :: bool

definition truthy_opt :: "string field \<Rightarrow> string option" where
  "truthy_opt f = (if text_of f \<noteq> [] then Some (text_of f) else None)"

definition non_empty :: "'a list option \<Rightarrow> 'a list option" where
  "non_empty xs = (case xs of Some (y # ys) \<Rightarrow> Some (y # ys) | _ \<Rightarrow> None)"

definition pattern_content :: "'m recommendation \<Rightarrow> 'm structured_data_scheme \<Rightarrow> pattern_view" where
  "pattern_content r d =
     (let trends = (case trends_of r of None \<Rightarrow> empty_trends | Some t \<Rightarrow> t);
          sectionPatterns =
            (case section_patterns_of r of None \<Rightarrow> empty_patterns | Some p \<Rightarrow> p);
          consistencyAnalysis =
            (case consistency_analysis d of None \<Rightarrow> empty_statistics | Some c \<Rightarrow> c)
      in \<lparr>metrics = performance_metrics consistencyAnalysis (own_statistics d),
          trends_block =
            (if text_of (consistency_trend trends) \<noteq> [] \<or> text_of (improvement_trend trends) \<noteq> []
             then Some (truthy_opt (consistency_trend trends),
                        truthy_opt (improvement_trend trends))
             else None),
          strengths_block = non_empty (strengths sectionPatterns),
          weaknesses_block = non_empty (weaknesses sectionPatterns),
          section_analysis_block =
            map_option section_lines (non_empty (section_analysis sectionPatterns)),
          variance_caption = (std_lap_time_s consistencyAnalysis \<noteq> Absent),
          coaching_hint =
            (non_empty (strengths sectionPatterns) = None \<and>
             non_empty (weaknesses sectionPatterns) = None \<and>
             text_of (consistency_trend trends) = [] \<and>
             text_of (improvement_trend trends) = [])\<rparr>)"

subsection \<open>The body of the panel\<close>

text \<open>
  The default rendering, used for the section analysis:
  \<open>recommendation_text || analysis_text || 'No recommendation available'\<close>.
\<close>

definition section_content :: "'m recommendation \<Rightarrow> jsstring" where
  "section_content r =
     (if text_of (recommendation_text r) \<noteq> [] then text_of (recommendation_text r)
      else if text_of (analysis_text r) \<noteq> [] then text_of (analysis_text r)
      else js ''No recommendation available'')"

text \<open>
  \<open>recommendation.confidence_score && (...)\<close>: nothing for \<open>null\<close> and
  \<open>undefined\<close>, the text 0 for the number 0, otherwise the line ``AI Confidence''
  with the score (printed as a percentage).
\<close>

datatype confidence_view = NoConfidence | ZeroConfidence | Confidence real

fun confidence_line :: "real field \<Rightarrow> confidence_view" where
  "confidence_line Absent = NoConfidence"
| "confidence_line IsNull = NoConfidence"
| "confidence_line (Val x) = (if x = 0 then ZeroConfidence else Confidence x)"

datatype structured_view = WeatherBlock weather_view | PatternBlock pattern_view

text \<open>
  What the panel shows of a recommendation below the chip with the type of the
  analysis: the coaching insights (for the type \<open>coaching\<close>, from
  \<open>structured_data\<close>; what they render to is \<open>coaching\<close>), the default text (for
  a type other than \<open>coaching\<close>, \<open>weather\<close> and \<open>pattern\<close>), the structured
  block (for the types \<open>weather\<close> and \<open>pattern\<close>, when there is
  \<open>structured_data\<close>), and the confidence.
\<close>

record 'c body_view =
  coaching_block :: "'c option"
  default_text :: "jsstring option"
  structured_block :: "structured_view option"
  confidence :: confidence_view

definition recommendation_body ::
  "('m structured_data_scheme \<Rightarrow> 'c) \<Rightarrow> string \<Rightarrow> 'm recommendation \<Rightarrow> 'c body_view" where
  "recommendation_body coaching recommendationType r =
     \<lparr>coaching_block =
        (if recommendationType = ''coaching'' then map_option coaching (structured_data_of r)
         else None),
      default_text =
        (if recommendationType \<noteq> ''coaching'' \<and> recommendationType \<noteq> ''weather'' \<and>
            recommendationType \<noteq> ''pattern''
         then Some (section_content r) else None),
      structured_block =
        (if recommendationType \<noteq> ''coaching'' then
           (case structured_data_of r of
              None \<Rightarrow> None
            | Some d \<Rightarrow>
                (if recommendationType = ''weather'' then Some (WeatherBlock (weather_content r d))
                 else if recommendationType = ''pattern''
                 then Some (PatternBlock (pattern_content r d))
                 else None))
         else None),
      confidence = confidence_line (confidence_score r)\<rparr>"

section \<open>The best-case composite builder\<close>

text \<open>
  Modelled from the spec: the section-time record of the data model (section 3),
  \<open>(track, race, driver, lap, section_name, elapsed_time)\<close>. The batch jobs that
  read these records are not among the sources; the elapsed time is a count of
  milliseconds, as in the documents the dashboard reads.
\<close>

record section_time =
  st_track :: string
  st_race :: string
  st_driver :: string
  st_lap :: nat
  st_section_name :: string
  elapsed_time :: int

text \<open>
  Modelled from the spec: the observations the builder uses for one section of one
  race (section 4.1: ``all section-time records for one race'', ``valid
  observation''). The builder itself is missing from the sources; which records
  count as valid is not said, so \<open>valid\<close> is a parameter.
\<close>

definition observations ::
  "(section_time \<Rightarrow> bool) \<Rightarrow> string \<Rightarrow> string \<Rightarrow> section_time list \<Rightarrow> section_time list" where
  "observations valid race s recs =
     filter (\<lambda>r. valid r \<and> st_race r = race \<and> st_section_name r = s) recs"

text \<open>
  Modelled from the spec: the pass of the missing builder over the observations of
  one section that keeps the record with ``the minimum observed time'' (the first
  one among equals).
\<close>

fun fastest_from :: "section_time \<Rightarrow> section_time list \<Rightarrow> section_time" where
  "fastest_from best [] = best"
| "fastest_from best (r # rs) =
     fastest_from (if elapsed_time r < elapsed_time best then r else best) rs"

text \<open>
  Modelled from the spec: one entry of the best-case composite of the missing
  builder, ``the minimum observed time and the (driver, lap) that achieved it'',
  or the flag for a section with zero observations (``must flag (not silently
  drop) sections with zero observations'').
\<close>

datatype section_result =
    Populated string int string nat
  | NoObservations string

text \<open>
  Modelled from the spec: the missing builder's result for one section name of
  one race.
\<close>

definition build_section ::
  "(section_time \<Rightarrow> bool) \<Rightarrow> string \<Rightarrow> section_time list \<Rightarrow> string \<Rightarrow> section_result" where
  "build_section valid race recs s =
     (case observations valid race s recs of
        [] \<Rightarrow> NoObservations s
      | r # rs \<Rightarrow>
          (let best = fastest_from r rs
           in Populated s (elapsed_time best) (st_driver best) (st_lap best)))"

text \<open>
  Modelled from the spec: the section names the missing builder reports for a
  race, those of the track (a parameter) followed by the others that occur in the
  race's records.
\<close>

definition section_names :: "string list \<Rightarrow> string \<Rightarrow> section_time list \<Rightarrow> string list" where
  "section_names track_sections race recs =
     track_sections @
     filter (\<lambda>n. n \<notin> set track_sections)
       (remdups (map st_section_name (filter (\<lambda>r. st_race r = race) recs)))"

text \<open>
  Modelled from the spec: the minimum of an entry of the missing builder's
  composite, as a summand of the theoretical fastest lap (nothing for a section
  without observations).
\<close>

fun minimum_of :: "section_result \<Rightarrow> int" where
  "minimum_of (Populated s t d l) = t"
| "minimum_of (NoObservations s) = 0"

text \<open>
  Modelled from the spec: whether an entry of the missing builder's composite is
  the flag of a section with zero observations.
\<close>

fun flagged :: "section_result \<Rightarrow> bool" where
  "flagged (Populated s t d l) = False"
| "flagged (NoObservations s) = True"

text \<open>
  Modelled from the spec: the section name of an entry of the missing builder's
  composite.
\<close>

fun result_name :: "section_result \<Rightarrow> string" where
  "result_name (Populated s t d l) = s"
| "result_name (NoObservations s) = s"

text \<open>
  Modelled from the spec: the derived record of the missing composite builder
  for one race (sections 4.1 and 7): the entries, the ``theoretical fastest lap''
  as the sum of the per-section minimums, and the mark of a partial record.
\<close>

record composite_record =
  cr_race :: string
  entries :: "section_result list"
  theoretical_fastest_lap :: int
  is_partial :: bool

text \<open>
  Modelled from the spec: the missing composite builder for one race, over the
  section-time records it is given (section 4.1: ``Sum per-section minimums to
  obtain the theoretical fastest lap'', over the sections with an observation).
  The architecture notes of the repository sketch the same loop,
  \<open>for section in track.sections: composite[section] = min(all_drivers[section].times)\<close>.
\<close>

definition build_composite ::
  "(section_time \<Rightarrow> bool) \<Rightarrow> string list \<Rightarrow> section_time list \<Rightarrow> string \<Rightarrow> composite_record" where
  "build_composite valid track_sections recs race =
     (let es = map (build_section valid race recs) (section_names track_sections race recs)
      in \<lparr>cr_race = race,
          entries = es,
          theoretical_fastest_lap = sum_list (map minimum_of (filter (\<lambda>e. \<not> flagged e) es)),
          is_partial = list_ex flagged es\<rparr>)"

section \<open>The read API\<close>

text \<open>
  Modelled from the spec: the read-only HTTP API over the document store
  (sections 6 and 7), which is not among the sources. The store holds flat
  documents under natural identifiers; a query returns the documents stored under
  the identifier it names, as a JSON list (``Query for a nonexistent entity ->
  empty result, not an error code''); an error response carries a status code and
  possibly a \<open>detail\<close>.
\<close>

datatype 'd api_response = Ok "'d list" | ErrorCode nat "string option"

text \<open>
  Modelled from the spec: a query of the missing read API, answered from the
  document store by the identifier it names.
\<close>

definition read_query :: "('k \<times> 'd) list \<Rightarrow> 'k \<Rightarrow> 'd api_response" where
  "read_query store key = Ok (map snd (filter (\<lambda>kd. fst kd = key) store))"

text \<open>
  What \<open>axios.get\<close> makes of a response in \<open>useApi\<close>: the body of a success, an
  exception with the response's detail for an error code.
\<close>

fun axios_get :: "'d api_response \<Rightarrow> 'd payload fetch_result" where
  "axios_get (Ok ds) = Response (JArray ds)"
| "axios_get (ErrorCode c detail) = Failure detail"

section \<open>Predicates of the statements\<close>

text \<open>The index points into the list of sections.\<close>

definition in_range :: "lap_section list \<Rightarrow> playback \<Rightarrow> bool" where
  "in_range sections st =
     (0 \<le> currentSectionIndex st \<and> currentSectionIndex st \<le> int (length sections) - 1)"

text \<open>An optional id of the selection object that is there and truthy.\<close>

fun chosen :: "jsid option \<Rightarrow> bool" where
  "chosen None = False"
| "chosen (Some v) = truthy v"

text \<open>
  A selection object that names a track with the composite option, or a track, a
  race, a driver and a lap.
\<close>

definition complete_selection :: "selection \<Rightarrow> bool" where
  "complete_selection sel =
     ((sel_isComposite sel \<and> truthy (trackId sel)) \<or>
      (truthy (trackId sel) \<and> chosen (raceId sel) \<and> chosen (driverId sel) \<and> chosen (lapId sel)))"

text \<open>The same of the state of the selector.\<close>

definition complete_state :: "race_selector \<Rightarrow> bool" where
  "complete_state st =
     ((isComposite st \<and> truthy (selectedTrack st)) \<or>
      (truthy (selectedTrack st) \<and> truthy (selectedRace st) \<and> truthy (selectedDriver st) \<and>
       truthy (selectedLap st)))"

text \<open>The rows of the time comparison a panel shows (none outside the regular lap mode).\<close>

fun panel_rows :: "panel_view \<Rightarrow> time_row list" where
  "panel_rows (RegularPanel n rows) = rows"
| "panel_rows (CompositePanel n t) = []"
| "panel_rows SectionSkeleton = []"



text \<open>The entry a derived record holds for a section name.\<close>

definition composite_lookup :: "composite_record \<Rightarrow> string \<Rightarrow> section_result option" where
  "composite_lookup c s = find (\<lambda>e. result_name e = s) (entries c)"



section \<open>Sample data\<close>

text \<open>A lap of three sections, the times in milliseconds.\<close>

definition demo_sections :: "lap_section list" where
  "demo_sections =
     [\<lparr>section_name = ''S1'', driver_time_ms = Num 34500, best_lap_time_ms = Num 34400,
        best_possible_time_ms = Num 34200\<rparr>,
      \<lparr>section_name = ''S2'', driver_time_ms = Num 28700, best_lap_time_ms = Num 28700,
        best_possible_time_ms = Num 28700\<rparr>,
      \<lparr>section_name = ''S3'', driver_time_ms = Num 32000, best_lap_time_ms = Num 31900,
        best_possible_time_ms = Num 31300\<rparr>]"

text \<open>The best-case composite of the same three sections.\<close>

definition demo_best_case :: "best_case_section list" where
  "demo_best_case =
     [\<lparr>bc_section_name = ''S1'', best_time_ms = Num 34200\<rparr>,
      \<lparr>bc_section_name = ''S2'', best_time_ms = Num 28700\<rparr>,
      \<lparr>bc_section_name = ''S3'', best_time_ms = Num 31300\<rparr>]"



text \<open>Fetched data, a sequence of choices, and the two selections it emits.\<close>

definition demo_api :: api_data where
  "demo_api = \<lparr>track_name_of = (\<lambda>t. if t = Str ''1'' then ''Barber'' else []),
               context_track_name = [],
               lap_number_of = (\<lambda>d l. if l = Str ''2|7|3'' then Num 3 else Undefined)\<rparr>"

definition demo_events :: "selector_event list" where
  "demo_events =
     [TrackChange (Str ''1''), DriverChange (Str ''composite''), RaceChange (Number 2),
      DriverChange (Number 7), LapChange (Str ''2|7|3'')]"

definition demo_lap_selection :: selection where
  "demo_lap_selection =
     \<lparr>trackId = Str ''1'', raceId = Some (Number 2), driverId = Some (Number 7),
      lapId = Some (Str ''2|7|3''), lapNumber = Num 3, sel_isComposite = False\<rparr>"

definition demo_composite_selection :: selection where
  "demo_composite_selection =
     \<lparr>trackId = Str ''1'', raceId = None, driverId = None, lapId = None,
      lapNumber = Undefined, sel_isComposite = True\<rparr>"

text \<open>
  A validity test, and the records of the end-to-end example of the spec (drivers
  A, B and C in ``Section 1'', in milliseconds) with a section that has no valid
  observation and a second race.
\<close>

definition positive_time :: "section_time \<Rightarrow> bool" where
  "positive_time r = (elapsed_time r > 0)"

definition demo_records :: "section_time list" where
  "demo_records =
     [\<lparr>st_track = ''T'', st_race = ''R1'', st_driver = ''A'', st_lap = 1,
        st_section_name = ''Section 1'', elapsed_time = 34200\<rparr>,
      \<lparr>st_track = ''T'', st_race = ''R1'', st_driver = ''A'', st_lap = 2,
        st_section_name = ''Section 1'', elapsed_time = 35000\<rparr>,
      \<lparr>st_track = ''T'', st_race = ''R1'', st_driver = ''B'', st_lap = 1,
        st_section_name = ''Section 1'', elapsed_time = 34500\<rparr>,
      \<lparr>st_track = ''T'', st_race = ''R1'', st_driver = ''B'', st_lap = 2,
        st_section_name = ''Section 1'', elapsed_time = 34800\<rparr>,
      \<lparr>st_track = ''T'', st_race = ''R1'', st_driver = ''C'', st_lap = 1,
        st_section_name = ''Section 1'', elapsed_time = 34900\<rparr>,
      \<lparr>st_track = ''T'', st_race = ''R1'', st_driver = ''C'', st_lap = 2,
        st_section_name = ''Section 1'', elapsed_time = 34600\<rparr>,
      \<lparr>st_track = ''T'', st_race = ''R1'', st_driver = ''A'', st_lap = 1,
        st_section_name = ''Section 2'', elapsed_time = 0\<rparr>,
      \<lparr>st_track = ''T'', st_race = ''R1'', st_driver = ''B'', st_lap = 1,
        st_section_name = ''Section 3'', elapsed_time = 31300\<rparr>,
      \<lparr>st_track = ''T'', st_race = ''R2'', st_driver = ''C'', st_lap = 1,
        st_section_name = ''Section 1'', elapsed_time = 33000\<rparr>]"

text \<open>The sections of the track of these records.\<close>

definition demo_track_sections :: "string list" where
  "demo_track_sections = [''Section 1'', ''Section 2'', ''Section 3'']"

text \<open>
  A weather-impact document without narrative and what its weather conditions
  render to; a weather-impact document whose summary holds the track temperature,
  the maximum wind and the rain flag only; a pattern document; and a store.
\<close>

definition demo_summary :: weather_summary where
  "demo_summary =
     \<lparr>avg_air_temp_celsius = Val 24.5, min_air_temp_celsius = Val 22, max_air_temp_celsius = Val 27,
      avg_track_temp_celsius = Val 38.2, avg_humidity_percent = Val 61, avg_wind_speed = Val 12.5,
      max_wind_speed = IsNull, rain_detected = Val False\<rparr>"

definition demo_data :: structured_data where
  "demo_data =
     \<lparr>data_points = Val 412, consistency_analysis = None, own_statistics = empty_statistics\<rparr>"

definition demo_weather :: "unit recommendation" where
  "demo_weather =
     \<lparr>recommendation_text = Absent, analysis_text = Absent,
      structured_data_of = Some demo_data, weather_summary_of = Some demo_summary,
      trends_of = None, section_patterns_of = None, confidence_score = Val 0.8\<rparr>"







definition demo_store :: "(string \<times> unit recommendation) list" where
  "demo_store = [(''race-1'', demo_weather)]"

section \<open>Sums computed by reduce\<close>

lemma foldl_add_sum_list:
  "foldl (\<lambda>sum s. sum + f s) (a::int) xs = a + sum_list (map f xs)"
  by (induction xs arbitrary: a) simp_all

lemma driverTotalTime_sum:
  "driverTotalTime sections = sum_list (map (\<lambda>s. or_zero (driver_time_ms s)) sections)"
  by (simp add: driverTotalTime_def foldl_add_sum_list)

lemma sum_or_zero_Num:
  "map f xs = map Num ms \<Longrightarrow> sum_list (map (\<lambda>s. or_zero (f s)) xs) = sum_list ms"
proof (induction xs arbitrary: ms)
  case Nil
  then show ?case by simp
next
  case (Cons x xs)
  then obtain m ms' where ms: "ms = m # ms'" by (cases ms) auto
  with Cons.prems have "f x = Num m" and "map f xs = map Num ms'" by simp_all
  with Cons.IH [of ms'] ms show ?case by simp
qed

section \<open>The best-case composite: the minimum of a section\<close>

lemma fastest_from_mem: "fastest_from best rs \<in> set (best # rs)"
  by (induction rs arbitrary: best) auto

lemma fastest_from_le_start: "elapsed_time (fastest_from best rs) \<le> elapsed_time best"
proof (induction rs arbitrary: best)
  case Nil
  then show ?case by simp
next
  case (Cons r rs)
  have "elapsed_time (fastest_from (if elapsed_time r < elapsed_time best then r else best) rs)
      \<le> elapsed_time (if elapsed_time r < elapsed_time best then r else best)"
    by (rule Cons.IH)
  also have "\<dots> \<le> elapsed_time best" by simp
  finally show ?case by simp
qed

lemma fastest_from_le_rest:
  "x \<in> set rs \<Longrightarrow> elapsed_time (fastest_from best rs) \<le> elapsed_time x"
proof (induction rs arbitrary: best)
  case Nil
  then show ?case by simp
next
  case (Cons r rs)
  show ?case
  proof (cases "x \<in> set rs")
    case True
    then show ?thesis by (simp add: Cons.IH)
  next
    case False
    with Cons.prems have x: "x = r" by simp
    have "elapsed_time (fastest_from (if elapsed_time r < elapsed_time best then r else best) rs)
      \<le> elapsed_time (if elapsed_time r < elapsed_time best then r else best)"
      by (rule fastest_from_le_start)
    also have "\<dots> \<le> elapsed_time r" by simp
    finally show ?thesis by (simp add: x)
  qed
qed

lemma fastest_from_le:
  "x \<in> set (best # rs) \<Longrightarrow> elapsed_time (fastest_from best rs) \<le> elapsed_time x"
  using fastest_from_le_start [of best rs] fastest_from_le_rest [of x rs best] by auto

lemma fastest_from_Min:
  "elapsed_time (fastest_from best rs) = Min (elapsed_time ` set (best # rs))"
proof (rule sym, rule Min_eqI)
  show "finite (elapsed_time ` set (best # rs))" by simp
  show "elapsed_time (fastest_from best rs) \<le> y" if "y \<in> elapsed_time ` set (best # rs)" for y
    using that fastest_from_le by blast
  show "elapsed_time (fastest_from best rs) \<in> elapsed_time ` set (best # rs)"
    using fastest_from_mem by blast
qed

lemma set_observations:
  "set (observations valid race s recs) =
     {x \<in> set recs. valid x \<and> st_race x = race \<and> st_section_name x = s}"
  by (auto simp: observations_def)

lemma result_name_build_section [simp]: "result_name (build_section valid race recs s) = s"
  by (simp add: build_section_def Let_def split: list.splits)

lemma flagged_build_section:
  "flagged (build_section valid race recs s) = (observations valid race s recs = [])"
  by (simp add: build_section_def Let_def split: list.splits)

lemma find_build_section:
  "s \<in> set names \<Longrightarrow>
   find (\<lambda>e. result_name e = s) (map (build_section valid race recs) names) =
     Some (build_section valid race recs s)"
  by (induction names) auto

lemma composite_lookup_build:
  "s \<in> set (section_names track_sections race recs) \<Longrightarrow>
   composite_lookup (build_composite valid track_sections recs race) s =
     Some (build_section valid race recs s)"
  by (simp add: composite_lookup_def build_composite_def Let_def find_build_section)

lemma build_section_populated:
  assumes "observations valid race s recs \<noteq> []"
  shows "\<exists>x \<in> set (observations valid race s recs).
     build_section valid race recs s = Populated s (elapsed_time x) (st_driver x) (st_lap x) \<and>
     elapsed_time x = Min (elapsed_time ` set (observations valid race s recs))"
proof -
  from assms obtain r rs where obs: "observations valid race s recs = r # rs"
    by (cases "observations valid race s recs") auto
  let ?x = "fastest_from r rs"
  have "?x \<in> set (observations valid race s recs)"
    using fastest_from_mem [of r rs] obs by simp
  moreover have "build_section valid race recs s =
      Populated s (elapsed_time ?x) (st_driver ?x) (st_lap ?x)"
    by (simp add: build_section_def obs Let_def)
  moreover have "elapsed_time ?x = Min (elapsed_time ` set (observations valid race s recs))"
    using fastest_from_Min [of r rs] obs by simp
  ultimately show ?thesis by blast
qed

text \<open>
  C1: for every race and every section name with at least one valid recorded
  observation, the entry of the best-case composite for that section holds the
  minimum elapsed time among all valid section-time records of that race and
  section (over all drivers and laps), together with the driver and the lap of a
  record that achieved this minimum.
\<close>

theorem composite_is_section_minimum:
  assumes "r \<in> set recs" and "valid r" and "st_race r = race" and "st_section_name r = s"
  shows "\<exists>x \<in> set recs. valid x \<and> st_race x = race \<and> st_section_name x = s \<and>
     composite_lookup (build_composite valid track_sections recs race) s =
       Some (Populated s (elapsed_time x) (st_driver x) (st_lap x)) \<and>
     elapsed_time x =
       Min (elapsed_time ` {y \<in> set recs. valid y \<and> st_race y = race \<and> st_section_name y = s})"
proof -
  have "r \<in> set (observations valid race s recs)"
    using assms by (simp add: set_observations)
  then have ne: "observations valid race s recs \<noteq> []" by auto
  have "s \<in> set (section_names track_sections race recs)"
    using assms by (auto simp: section_names_def)
  then have look: "composite_lookup (build_composite valid track_sections recs race) s =
     Some (build_section valid race recs s)"
    by (rule composite_lookup_build)
  from build_section_populated [OF ne] obtain x where
    x: "x \<in> set (observations valid race s recs)"
      "build_section valid race recs s = Populated s (elapsed_time x) (st_driver x) (st_lap x)"
      "elapsed_time x = Min (elapsed_time ` set (observations valid race s recs))"
    by blast
  from x(1) have "x \<in> set recs" "valid x" "st_race x = race" "st_section_name x = s"
    by (simp_all add: set_observations)
  with look x(2,3) show ?thesis
    by (auto simp: set_observations)
qed

lemma demo_composite:
  "build_composite positive_time demo_track_sections demo_records ''R1'' =
     \<lparr>cr_race = ''R1'',
      entries = [Populated ''Section 1'' 34200 ''A'' 1, NoObservations ''Section 2'',
                 Populated ''Section 3'' 31300 ''B'' 1],
      theoretical_fastest_lap = 65500, is_partial = True\<rparr>"
  by code_simp

theorem composite_is_section_minimum_witness:
  "demo_records ! 0 \<in> set demo_records
   \<and> positive_time (demo_records ! 0)
   \<and> st_race (demo_records ! 0) = ''R1''
   \<and> st_section_name (demo_records ! 0) = ''Section 1''
   \<and> composite_lookup (build_composite positive_time demo_track_sections demo_records ''R1'')
        ''Section 1'' = Some (Populated ''Section 1'' 34200 ''A'' 1)
   \<and> Min (elapsed_time ` {y \<in> set demo_records. positive_time y \<and> st_race y = ''R1'' \<and>
        st_section_name y = ''Section 1''}) = 34200"
proof -
  have h1: "demo_records ! 0 \<in> set demo_records"
    and h2: "positive_time (demo_records ! 0)"
    and h3: "st_race (demo_records ! 0) = ''R1''"
    and h4: "st_section_name (demo_records ! 0) = ''Section 1''"
    by (simp_all add: demo_records_def positive_time_def)
  have look: "composite_lookup (build_composite positive_time demo_track_sections demo_records ''R1'')
        ''Section 1'' = Some (Populated ''Section 1'' 34200 ''A'' 1)"
    by (simp add: demo_composite composite_lookup_def)
  have "\<exists>x \<in> set demo_records. positive_time x \<and> st_race x = ''R1'' \<and>
      st_section_name x = ''Section 1'' \<and>
      composite_lookup (build_composite positive_time demo_track_sections demo_records ''R1'')
        ''Section 1'' = Some (Populated ''Section 1'' (elapsed_time x) (st_driver x) (st_lap x)) \<and>
      elapsed_time x = Min (elapsed_time ` {y \<in> set demo_records. positive_time y \<and>
        st_race y = ''R1'' \<and> st_section_name y = ''Section 1''})"
    by (rule composite_is_section_minimum [where valid = positive_time and r = "demo_records ! 0"
      and recs = demo_records and race = "''R1''" and s = "''Section 1''"
      and track_sections = demo_track_sections, OF h1 h2 h3 h4])
  then have m: "Min (elapsed_time ` {y \<in> set demo_records. positive_time y \<and> st_race y = ''R1'' \<and>
        st_section_name y = ''Section 1''}) = 34200"
  proof (elim bexE conjE)
    fix x
    assume found: "composite_lookup
        (build_composite positive_time demo_track_sections demo_records ''R1'')
        ''Section 1'' = Some (Populated ''Section 1'' (elapsed_time x) (st_driver x) (st_lap x))"
      and least: "elapsed_time x = Min (elapsed_time ` {y \<in> set demo_records. positive_time y \<and>
        st_race y = ''R1'' \<and> st_section_name y = ''Section 1''})"
    from found look have "elapsed_time x = 34200" by simp
    with least show ?thesis by simp
  qed
  show ?thesis by (intro conjI) (rule h1 h2 h3 h4 look m)+
qed

section \<open>Gaps and totals of the dashboard\<close>

lemma optimal_row:
  assumes "driver_time_ms s = Num d" and "best_possible_time_ms s = Num c"
  shows "panel_rows (SectionPanel (Some s) False) ! 2 =
     \<lparr>time_label = ''Optimal (All Drivers):'', time_value = Some c,
      row_gap = GapSpan (if d - c > 0 then ''+'' else [])
                  (if d - c > 0 then ''gap-positive''
                   else (if d - c < 0 then ''gap-negative'' else []))
                  (d - c)\<rparr>"
  using assms by (simp add: SectionPanel_def js_minus_def formatTime_def Let_def numeral_2_eq_2)

lemma timeGap_fallback:
  "timeGap sections None False =
     sum_list (map (\<lambda>s. or_zero (driver_time_ms s) - or_zero (best_possible_time_ms s)) sections)"
proof -
  have "sum_list (map (\<lambda>s. or_zero (driver_time_ms s) - or_zero (best_possible_time_ms s)) xs) =
        sum_list (map (\<lambda>s. or_zero (driver_time_ms s)) xs) -
        sum_list (map (\<lambda>s. or_zero (best_possible_time_ms s)) xs)" for xs :: "lap_section list"
    by (induction xs) simp_all
  then show ?thesis
    by (simp add: timeGap_def driverTotalTime_def optimalTotalTime_def foldl_add_sum_list)
qed

text \<open>
  C2: the reported gap is the driver's section time minus the composite's minimum
  for that section. For a section whose \<open>driver_time_ms\<close> is d and whose
  \<open>best_possible_time_ms\<close> (the optimum over all drivers) is c, the row
  ``Optimal (All Drivers)'' of SectionPanel shows c with the gap d - c; the gap is
  exactly 0, without sign, when d = c. The gap of TotalLapTimeComparison is the
  driver's total minus the optimal total, and with the per-section optimum of the
  lap's own sections it is the sum of the per-section gaps.
\<close>

theorem gap_is_driver_time_minus_composite:
  assumes "driver_time_ms s = Num d" and "best_possible_time_ms s = Num c"
  shows "time_label (panel_rows (SectionPanel (Some s) False) ! 2) = ''Optimal (All Drivers):''
     \<and> time_value (panel_rows (SectionPanel (Some s) False) ! 2) = Some c
     \<and> row_gap (panel_rows (SectionPanel (Some s) False) ! 2) = Gap (Num (d - c))
     \<and> (d = c \<longrightarrow> row_gap (panel_rows (SectionPanel (Some s) False) ! 2) = GapSpan [] [] 0)
     \<and> (d > c \<longrightarrow> row_gap (panel_rows (SectionPanel (Some s) False) ! 2)
                      = GapSpan ''+'' ''gap-positive'' (d - c))
     \<and> timeGap sections bcs ic = driverTotalTime sections - optimalTotalTime sections bcs ic
     \<and> (TotalLapTimeComparison sections bcs ic = Some v \<longrightarrow>
           total_gap v = formatGap (Num (driver_total v - optimal_total v)))
     \<and> timeGap sections None False =
         sum_list (map (\<lambda>s. or_zero (driver_time_ms s) - or_zero (best_possible_time_ms s)) sections)"
proof -
  note row = optimal_row [OF assms]
  have total: "TotalLapTimeComparison sections bcs ic = Some v \<longrightarrow>
           total_gap v = formatGap (Num (driver_total v - optimal_total v))"
    by (auto simp: TotalLapTimeComparison_def timeGap_def split: if_splits)
  show ?thesis
    by (intro conjI) (simp_all add: row timeGap_fallback total, simp add: timeGap_def)
qed

theorem gap_is_driver_time_minus_composite_witness:
  "driver_time_ms (demo_sections ! 0) = Num 34500
   \<and> best_possible_time_ms (demo_sections ! 0) = Num 34200
   \<and> row_gap (panel_rows (SectionPanel (Some (demo_sections ! 0)) False) ! 2)
        = GapSpan ''+'' ''gap-positive'' 300
   \<and> driver_time_ms (demo_sections ! 1) = Num 28700
   \<and> best_possible_time_ms (demo_sections ! 1) = Num 28700
   \<and> row_gap (panel_rows (SectionPanel (Some (demo_sections ! 1)) False) ! 2) = GapSpan [] [] 0
   \<and> TotalLapTimeComparison demo_sections (Some demo_best_case) False
        = Some \<lparr>driver_total = 95200, optimal_total = 94200,
                 total_gap = GapSpan ''+'' ''gap-positive'' 1000\<rparr>"
proof -
  have h1: "driver_time_ms (demo_sections ! 0) = Num 34500"
    and h2: "best_possible_time_ms (demo_sections ! 0) = Num 34200"
    and h3: "driver_time_ms (demo_sections ! 1) = Num 28700"
    and h4: "best_possible_time_ms (demo_sections ! 1) = Num 28700"
    by (simp_all add: demo_sections_def)
  have t: "TotalLapTimeComparison demo_sections (Some demo_best_case) False
        = Some \<lparr>driver_total = 95200, optimal_total = 94200,
                 total_gap = GapSpan ''+'' ''gap-positive'' 1000\<rparr>"
    by (simp add: TotalLapTimeComparison_def driverTotalTime_def optimalTotalTime_def
        timeGap_def demo_sections_def demo_best_case_def)
  note a = gap_is_driver_time_minus_composite [OF h1 h2, of demo_sections "Some demo_best_case" False
      "\<lparr>driver_total = 95200, optimal_total = 94200, total_gap = GapSpan ''+'' ''gap-positive'' 1000\<rparr>"]
  note b = gap_is_driver_time_minus_composite [OF h3 h4, of "[]" None False
      "\<lparr>driver_total = 0, optimal_total = 0, total_gap = GapDash\<rparr>"]
  have g1: "row_gap (panel_rows (SectionPanel (Some (demo_sections ! 0)) False) ! 2)
        = GapSpan ''+'' ''gap-positive'' 300"
    using a [THEN conjunct2, THEN conjunct2, THEN conjunct2, THEN conjunct2, THEN conjunct1]
    by simp
  have g2: "row_gap (panel_rows (SectionPanel (Some (demo_sections ! 1)) False) ! 2) = GapSpan [] [] 0"
    using b [THEN conjunct2, THEN conjunct2, THEN conjunct2, THEN conjunct1] by simp
  show ?thesis by (intro conjI) (rule h1 h2 g1 h3 h4 g2 t)+
qed

text \<open>
  C3: the theoretical fastest lap, the optimal (composite) total of
  TotalLapTimeComparison, is the sum over the sections of the per-section
  composite minimums: of \<open>best_time_ms\<close> over the best-case sections when there
  are any, of the section times themselves when the composite is viewed, and of
  \<open>best_possible_time_ms\<close> over the lap's sections otherwise (a minimum that is
  missing counts 0).
\<close>

theorem optimal_total_is_sum_of_section_minimums:
  "(bcs \<noteq> [] \<and> map best_time_ms bcs = map Num ms \<longrightarrow>
      optimalTotalTime sections (Some bcs) False = sum_list ms)
   \<and> (map driver_time_ms sections = map Num ms \<longrightarrow>
      optimalTotalTime sections b True = sum_list ms)
   \<and> (map best_possible_time_ms sections = map Num ms \<longrightarrow>
      optimalTotalTime sections None False = sum_list ms
      \<and> optimalTotalTime sections (Some []) False = sum_list ms)
   \<and> optimalTotalTime sections (Some (c # cs)) False =
        sum_list (map (\<lambda>s. or_zero (best_time_ms s)) (c # cs))"
proof -
  have best: "bcs \<noteq> [] \<and> map best_time_ms bcs = map Num ms \<longrightarrow>
      optimalTotalTime sections (Some bcs) False = sum_list ms"
  proof (cases bcs)
    case Nil
    then show ?thesis by simp
  next
    case (Cons x xs)
    show ?thesis
    proof
      assume "bcs \<noteq> [] \<and> map best_time_ms bcs = map Num ms"
      then have "sum_list (map (\<lambda>s. or_zero (best_time_ms s)) bcs) = sum_list ms"
        by (simp add: sum_or_zero_Num)
      then show "optimalTotalTime sections (Some bcs) False = sum_list ms"
        unfolding Cons by (simp add: optimalTotalTime_def foldl_add_sum_list del: foldl_Cons)
    qed
  qed
  have comp: "map driver_time_ms sections = map Num ms \<longrightarrow>
      optimalTotalTime sections b True = sum_list ms"
    by (simp add: optimalTotalTime_def foldl_add_sum_list sum_or_zero_Num)
  have fallback: "map best_possible_time_ms sections = map Num ms \<longrightarrow>
      optimalTotalTime sections None False = sum_list ms
      \<and> optimalTotalTime sections (Some []) False = sum_list ms"
    by (simp add: optimalTotalTime_def foldl_add_sum_list sum_or_zero_Num)
  have gen: "optimalTotalTime sections (Some (c # cs)) False =
        sum_list (map (\<lambda>s. or_zero (best_time_ms s)) (c # cs))"
    by (simp add: optimalTotalTime_def foldl_add_sum_list del: foldl_Cons)
  show ?thesis by (intro conjI) (rule best comp fallback gen)+
qed

theorem optimal_total_is_sum_of_section_minimums_witness:
  "demo_best_case \<noteq> []
   \<and> map best_time_ms demo_best_case = map Num [34200, 28700, 31300]
   \<and> optimalTotalTime demo_sections (Some demo_best_case) False = 94200
   \<and> map best_possible_time_ms demo_sections = map Num [34200, 28700, 31300]
   \<and> optimalTotalTime demo_sections None False = 94200"
proof -
  have h1: "demo_best_case \<noteq> []"
    and h2: "map best_time_ms demo_best_case = map Num [34200, 28700, 31300]"
    by (simp_all add: demo_best_case_def)
  have h3: "map best_possible_time_ms demo_sections = map Num [34200, 28700, 31300]"
    by (simp add: demo_sections_def)
  note a = optimal_total_is_sum_of_section_minimums [of demo_best_case "[34200, 28700, 31300]"
      demo_sections None "hd demo_best_case" "[]"]
  have t1: "optimalTotalTime demo_sections (Some demo_best_case) False = 94200"
    using a [THEN conjunct1] h1 h2 by simp
  have t2: "optimalTotalTime demo_sections None False = 94200"
    using a [THEN conjunct2, THEN conjunct2, THEN conjunct1] h3 by simp
  show ?thesis by (intro conjI) (rule h1 h2 t1 h3 t2)+
qed

section \<open>Laps with sections that have no time\<close>














section \<open>The recommendation panel: missing narrative and missing documents\<close>































text \<open>
  C8: a read query that names an entity with no document in the store returns the
  empty list, not an error code; \<open>useApi\<close> ends such a request with the empty
  list as data and no error, from any earlier state; and the recommendation panel
  renders it as the block ``No AI analysis available'', not as the error block,
  which is what an error code leads to.
\<close>

theorem nonexistent_entity_gives_no_data_state:
  assumes "key \<notin> fst ` set store" and "recommendationType \<noteq> []"
  shows "read_query store key = Ok []
   \<and> fetchData (axios_get (read_query store key)) st
        = \<lparr>data = Some (JArray []), loading = False, error = None\<rparr>
   \<and> DraggableRecommendationPanel render recommendationType
        (fetchData (axios_get (read_query store key)) st)
        = Some \<lparr>loading_shown = False, error_shown = False, recommendation_shown = None,
                 no_analysis_shown = True\<rparr>
   \<and> map_option error_shown (DraggableRecommendationPanel render recommendationType
        (fetchData (axios_get (ErrorCode c detail)) st)) = Some True"
proof -
  have "filter (\<lambda>kd. fst kd = key) store = []"
    using assms(1) by (auto simp: filter_empty_conv)
  then have q: "read_query store key = Ok []"
    by (simp add: read_query_def)
  have f: "fetchData (axios_get (read_query store key)) st
        = \<lparr>data = Some (JArray []), loading = False, error = None\<rparr>"
    by (simp add: q fetchData_def fetch_begin_def fetch_end_def)
  have d: "DraggableRecommendationPanel render recommendationType
        (fetchData (axios_get (read_query store key)) st)
        = Some \<lparr>loading_shown = False, error_shown = False, recommendation_shown = None,
                 no_analysis_shown = True\<rparr>"
    using assms(2)
    by (simp add: f DraggableRecommendationPanel_def first_recommendation_def Let_def)
  have e: "map_option error_shown (DraggableRecommendationPanel render recommendationType
        (fetchData (axios_get (ErrorCode c detail)) st)) = Some True"
    using assms(2)
    by (simp add: DraggableRecommendationPanel_def fetchData_def fetch_begin_def fetch_end_def
        Let_def split: option.splits)
  show ?thesis by (intro conjI) (rule q f d e)+
qed

theorem nonexistent_entity_gives_no_data_state_witness:
  "''race-99'' \<notin> fst ` set demo_store
   \<and> ''weather'' \<noteq> []
   \<and> read_query demo_store ''race-99'' = Ok []
   \<and> DraggableRecommendationPanel (recommendation_body (\<lambda>d. ()) ''weather'') ''weather''
        (fetchData (axios_get (read_query demo_store ''race-99'')) initial_api_state)
        = Some \<lparr>loading_shown = False, error_shown = False, recommendation_shown = None,
                 no_analysis_shown = True\<rparr>"
proof -
  have h1: "''race-99'' \<notin> fst ` set demo_store"
    by (simp add: demo_store_def)
  have h2: "''weather'' \<noteq> []" by simp
  note a = nonexistent_entity_gives_no_data_state [OF h1 h2, of initial_api_state
      "recommendation_body (\<lambda>d::structured_data. ()) ''weather''" 404 "Some ''Not Found''"]
  have q: "read_query demo_store ''race-99'' = Ok []"
    using a by (rule conjunct1)
  have d: "DraggableRecommendationPanel (recommendation_body (\<lambda>d. ()) ''weather'') ''weather''
        (fetchData (axios_get (read_query demo_store ''race-99'')) initial_api_state)
        = Some \<lparr>loading_shown = False, error_shown = False, recommendation_shown = None,
                 no_analysis_shown = True\<rparr>"
    using a [THEN conjunct2, THEN conjunct2, THEN conjunct1] .
  show ?thesis by (intro conjI) (rule h1 h2 q d)+
qed

section \<open>LapReview: the playback index stays inside the list\<close>

lemma findIndex_range:
  "findIndex p xs = - 1 \<or> (0 \<le> findIndex p xs \<and> findIndex p xs < int (length xs))"
  by (induction xs) (auto simp: Let_def)

lemma playback_tick_in_range:
  "in_range sections st \<Longrightarrow> in_range sections (playback_tick sections st)"
  by (auto simp: in_range_def playback_tick_def)

lemma handlePlayPause_in_range:
  "in_range sections st \<Longrightarrow> in_range sections (handlePlayPause sections st)"
  by (auto simp: in_range_def handlePlayPause_def)

lemma handleStep_in_range:
  "in_range sections st \<Longrightarrow> in_range sections (handleStep sections direction st)"
  by (auto simp: in_range_def handleStep_def Let_def)

lemma handleSectionClick_in_range:
  "in_range sections st \<Longrightarrow> in_range sections (handleSectionClick sections sectionName st)"
  using findIndex_range [of "\<lambda>s. section_name s = sectionName" sections]
  by (auto simp: in_range_def handleSectionClick_def Let_def)

lemma playback_step_in_range:
  "in_range sections st \<Longrightarrow> in_range sections (playback_step sections st a)"
  by (cases a)
    (simp_all add: playback_tick_in_range handlePlayPause_in_range handleStep_in_range
      handleSectionClick_in_range)

lemma foldl_playback_in_range:
  "in_range sections st \<Longrightarrow> in_range sections (foldl (playback_step sections) st actions)"
  by (induction actions arbitrary: st) (simp_all add: playback_step_in_range)

lemma playback_run_in_range:
  "sections \<noteq> [] \<Longrightarrow> in_range sections (playback_run sections actions)"
  unfolding playback_run_def
  by (rule foldl_playback_in_range) (cases sections; simp add: in_range_def initial_playback_def)

text \<open>
  Playing from an index inside the list, the ticks walk to the last section and
  the tick after that stops the playback there.
\<close>

lemma ticks_reach_end:
  "in_range sections st \<Longrightarrow> isPlaying st \<Longrightarrow>
   k = nat (int (length sections) - 1 - currentSectionIndex st) \<Longrightarrow>
   (playback_tick sections ^^ Suc k) st =
     \<lparr>currentSectionIndex = int (length sections) - 1, isPlaying = False\<rparr>"
proof (induction k arbitrary: st)
  case 0
  then have "currentSectionIndex st = int (length sections) - 1"
    by (simp add: in_range_def)
  with 0 show ?case
    by (cases st) (auto simp: playback_tick_def in_range_def)
next
  case (Suc k)
  let ?st = "playback_tick sections st"
  from Suc.prems have lt: "currentSectionIndex st < int (length sections) - 1"
    by simp
  with Suc.prems have step: "?st = st\<lparr>currentSectionIndex := currentSectionIndex st + 1\<rparr>"
    by (auto simp: playback_tick_def in_range_def)
  have "in_range sections ?st" using Suc.prems(1) by (rule playback_tick_in_range)
  moreover have "isPlaying ?st" using step Suc.prems(2) by simp
  moreover have "k = nat (int (length sections) - 1 - currentSectionIndex ?st)"
    using step Suc.prems(3) by simp
  ultimately have "(playback_tick sections ^^ Suc k) ?st =
     \<lparr>currentSectionIndex = int (length sections) - 1, isPlaying = False\<rparr>"
    by (rule Suc.IH)
  then show ?case by (simp add: funpow_swap1)
qed

lemma demo_sections_length: "length demo_sections = 3"
  by (simp add: demo_sections_def)

lemma demo_sections_not_empty: "demo_sections \<noteq> []"
  by (simp add: demo_sections_def)

text \<open>
  C9: in the playback state machine of LapReview, over a non-empty list of
  sections, the current section index stays between 0 and the last index after
  every sequence of actions (play/pause, steps, clicks on sections, ticks), and
  every action keeps an index inside the list inside it. A tick with the index at
  the last section stops the playback and leaves the index there, so that playing
  from any index the ticks end stopped at the last section, never wrapped to the
  first. A step that would leave the list at either end leaves the index as it is
  (and pauses). Pressing play while paused at the last section restarts from
  index 0.
\<close>

theorem lapreview_playback_stays_in_range:
  assumes "sections \<noteq> []" and "in_range sections st"
  shows "0 \<le> currentSectionIndex (playback_run sections actions)
     \<and> currentSectionIndex (playback_run sections actions) \<le> int (length sections) - 1
     \<and> in_range sections (playback_step sections st a)
     \<and> (isPlaying st \<and> currentSectionIndex st = int (length sections) - 1 \<longrightarrow>
           playback_tick sections st = st\<lparr>isPlaying := False\<rparr>)
     \<and> (isPlaying st \<longrightarrow>
           (playback_tick sections ^^ Suc (nat (int (length sections) - 1 - currentSectionIndex st))) st
             = \<lparr>currentSectionIndex = int (length sections) - 1, isPlaying = False\<rparr>)
     \<and> (currentSectionIndex st + direction < 0 \<or>
          currentSectionIndex st + direction > int (length sections) - 1 \<longrightarrow>
           handleStep sections direction st = st\<lparr>isPlaying := False\<rparr>)
     \<and> (\<not> isPlaying st \<and> currentSectionIndex st = int (length sections) - 1 \<longrightarrow>
           handlePlayPause sections st = \<lparr>currentSectionIndex = 0, isPlaying = True\<rparr>)"
proof -
  have run: "in_range sections (playback_run sections actions)"
    using assms(1) by (rule playback_run_in_range)
  have step: "in_range sections (playback_step sections st a)"
    using assms(2) by (rule playback_step_in_range)
  have stop: "isPlaying st \<and> currentSectionIndex st = int (length sections) - 1 \<longrightarrow>
           playback_tick sections st = st\<lparr>isPlaying := False\<rparr>"
    using assms(1) by (simp add: playback_tick_def)
  have reach: "isPlaying st \<longrightarrow>
           (playback_tick sections ^^ Suc (nat (int (length sections) - 1 - currentSectionIndex st))) st
             = \<lparr>currentSectionIndex = int (length sections) - 1, isPlaying = False\<rparr>"
    using ticks_reach_end [OF assms(2)] by blast
  have ends: "currentSectionIndex st + direction < 0 \<or>
          currentSectionIndex st + direction > int (length sections) - 1 \<longrightarrow>
           handleStep sections direction st = st\<lparr>isPlaying := False\<rparr>"
    by (auto simp: handleStep_def Let_def)
  have restart: "\<not> isPlaying st \<and> currentSectionIndex st = int (length sections) - 1 \<longrightarrow>
           handlePlayPause sections st = \<lparr>currentSectionIndex = 0, isPlaying = True\<rparr>"
    using assms(1) by (cases st) (simp add: handlePlayPause_def)
  from run have lo: "0 \<le> currentSectionIndex (playback_run sections actions)"
    and hi: "currentSectionIndex (playback_run sections actions) \<le> int (length sections) - 1"
    by (simp_all add: in_range_def)
  show ?thesis
    by (intro conjI) (rule lo hi step stop reach ends restart)+
qed

theorem lapreview_playback_stays_in_range_witness:
  "demo_sections \<noteq> []
   \<and> in_range demo_sections \<lparr>currentSectionIndex = 2, isPlaying = True\<rparr>
   \<and> in_range demo_sections \<lparr>currentSectionIndex = 2, isPlaying = False\<rparr>
   \<and> in_range demo_sections \<lparr>currentSectionIndex = 0, isPlaying = True\<rparr>
   \<and> currentSectionIndex
        (playback_run demo_sections [PlayPause, Tick, Tick, Tick, Tick, PlayPause, Tick, Step 1, Step 1, Step 1])
        \<le> 2
   \<and> playback_run demo_sections [PlayPause, Tick, Tick, Tick, Tick, PlayPause, Tick, Step 1, Step 1, Step 1]
        = \<lparr>currentSectionIndex = 2, isPlaying = False\<rparr>
   \<and> playback_tick demo_sections \<lparr>currentSectionIndex = 2, isPlaying = True\<rparr>
        = \<lparr>currentSectionIndex = 2, isPlaying = False\<rparr>
   \<and> playback_tick demo_sections (playback_tick demo_sections (playback_tick demo_sections
        \<lparr>currentSectionIndex = 0, isPlaying = True\<rparr>))
        = \<lparr>currentSectionIndex = 2, isPlaying = False\<rparr>
   \<and> handleStep demo_sections 1 \<lparr>currentSectionIndex = 2, isPlaying = True\<rparr>
        = \<lparr>currentSectionIndex = 2, isPlaying = False\<rparr>
   \<and> handleStep demo_sections (- 1) \<lparr>currentSectionIndex = 0, isPlaying = True\<rparr>
        = \<lparr>currentSectionIndex = 0, isPlaying = False\<rparr>
   \<and> handlePlayPause demo_sections \<lparr>currentSectionIndex = 2, isPlaying = False\<rparr>
        = \<lparr>currentSectionIndex = 0, isPlaying = True\<rparr>"
proof -
  note ne = demo_sections_not_empty
  have len: "int (length demo_sections) = 3" by (simp add: demo_sections_length)
  have r1: "in_range demo_sections \<lparr>currentSectionIndex = 2, isPlaying = True\<rparr>"
    and r2: "in_range demo_sections \<lparr>currentSectionIndex = 2, isPlaying = False\<rparr>"
    and r3: "in_range demo_sections \<lparr>currentSectionIndex = 0, isPlaying = True\<rparr>"
    by (simp_all add: in_range_def len)
  have run: "playback_run demo_sections
        [PlayPause, Tick, Tick, Tick, Tick, PlayPause, Tick, Step 1, Step 1, Step 1]
        = \<lparr>currentSectionIndex = 2, isPlaying = False\<rparr>"
    by (simp add: playback_run_def initial_playback_def handlePlayPause_def playback_tick_def
        handleStep_def demo_sections_length)
  note a = lapreview_playback_stays_in_range [OF ne r1,
      of "[PlayPause, Tick, Tick, Tick, Tick, PlayPause, Tick, Step 1, Step 1, Step 1]" PlayPause 1]
    and b = lapreview_playback_stays_in_range [OF ne r2, of "[]" PlayPause 1]
    and c = lapreview_playback_stays_in_range [OF ne r3, of "[]" PlayPause "- 1"]
  have w0: "currentSectionIndex (playback_run demo_sections
        [PlayPause, Tick, Tick, Tick, Tick, PlayPause, Tick, Step 1, Step 1, Step 1]) \<le> 2"
    using a [THEN conjunct2, THEN conjunct1] by (simp add: len)
  have w1: "playback_tick demo_sections \<lparr>currentSectionIndex = 2, isPlaying = True\<rparr>
        = \<lparr>currentSectionIndex = 2, isPlaying = False\<rparr>"
    using a [THEN conjunct2, THEN conjunct2, THEN conjunct2, THEN conjunct1]
    by (simp add: len)
  have w2: "handleStep demo_sections 1 \<lparr>currentSectionIndex = 2, isPlaying = True\<rparr>
        = \<lparr>currentSectionIndex = 2, isPlaying = False\<rparr>"
    using a [THEN conjunct2, THEN conjunct2, THEN conjunct2, THEN conjunct2, THEN conjunct2,
        THEN conjunct1]
    by (simp add: len)
  have w3: "handlePlayPause demo_sections \<lparr>currentSectionIndex = 2, isPlaying = False\<rparr>
        = \<lparr>currentSectionIndex = 0, isPlaying = True\<rparr>"
    using b [THEN conjunct2, THEN conjunct2, THEN conjunct2, THEN conjunct2, THEN conjunct2,
        THEN conjunct2]
    by (simp add: len)
  have w4: "handleStep demo_sections (- 1) \<lparr>currentSectionIndex = 0, isPlaying = True\<rparr>
        = \<lparr>currentSectionIndex = 0, isPlaying = False\<rparr>"
    using c [THEN conjunct2, THEN conjunct2, THEN conjunct2, THEN conjunct2, THEN conjunct2,
        THEN conjunct1]
    by (simp add: len)
  have w5: "playback_tick demo_sections (playback_tick demo_sections (playback_tick demo_sections
        \<lparr>currentSectionIndex = 0, isPlaying = True\<rparr>))
        = \<lparr>currentSectionIndex = 2, isPlaying = False\<rparr>"
    using c [THEN conjunct2, THEN conjunct2, THEN conjunct2, THEN conjunct2, THEN conjunct1]
    by (simp add: len eval_nat_numeral)
  show ?thesis
    by (intro conjI) (rule ne r1 r2 r3 w0 run w1 w5 w2 w4 w3)+
qed

section \<open>RaceSelector: cascading resets and complete selections\<close>

lemma selections_append: "selections (xs @ ys) = selections xs @ selections ys"
  by (induction xs rule: selections.induct) simp_all

lemma selections_notify_effect:
  "selections (notify_effect st) =
     (if isComposite st \<and> truthy (selectedTrack st) then
        [Some \<lparr>trackId = selectedTrack st,
            raceId = (if truthy (selectedRace st) then Some (selectedRace st) else None),
            driverId = None, lapId = None, lapNumber = Undefined, sel_isComposite = True\<rparr>]
      else if truthy (selectedTrack st) \<and> truthy (selectedRace st) \<and>
              truthy (selectedDriver st) \<and> truthy (selectedLap st) then
        [Some \<lparr>trackId = selectedTrack st, raceId = Some (selectedRace st),
            driverId = Some (selectedDriver st), lapId = Some (selectedLap st),
            lapNumber = lap_number_of (fetched st) (selectedDriver st) (selectedLap st),
            sel_isComposite = False\<rparr>]
      else [])"
  by (simp add: notify_effect_def Let_def selections_append)

lemma notify_effect_complete:
  "Some sel \<in> set (selections (notify_effect st)) \<Longrightarrow> complete_state st \<and> complete_selection sel"
  by (auto simp: selections_notify_effect complete_state_def complete_selection_def
      split: if_splits)

lemma selections_handleTrackChange:
  "selections (snd (handleTrackChange v st)) = [None]"
  by (simp add: handleTrackChange_def Let_def selections_append)

lemma handler_selections_null:
  "Some sel \<notin> set (selections (snd (handleTrackChange v st)))"
  "Some sel \<notin> set (selections (snd (handleRaceChange v st)))"
  "Some sel \<notin> set (selections (snd (handleDriverChange v st)))"
  "Some sel \<notin> set (selections (snd (handleLapChange v st)))"
  by (simp_all add: selections_handleTrackChange handleRaceChange_def handleDriverChange_def
      handleLapChange_def)

lemma after_handler_complete:
  assumes "Some sel \<notin> set (selections (snd r))"
    and "Some sel \<in> set (selections (snd (after_handler st r)))"
  shows "complete_state (fst (after_handler st r)) \<and> complete_selection sel"
  using assms notify_effect_complete [of sel "fst r"]
  by (auto simp: after_handler_def selections_append split: if_splits)

lemma selector_step_complete:
  "Some sel \<in> set (selections (snd (selector_step st e))) \<Longrightarrow>
   complete_state (fst (selector_step st e)) \<and> complete_selection sel"
proof (cases e)
  case (DataFetched d)
  assume "Some sel \<in> set (selections (snd (selector_step st e)))"
  with DataFetched show ?thesis
    using notify_effect_complete [of sel "st\<lparr>fetched := d\<rparr>"] by simp
qed (simp_all, (erule after_handler_complete [rotated], rule handler_selections_null)+)

lemma selector_run_complete:
  "\<forall>sel. Some sel \<in> set (selections (snd acc)) \<longrightarrow> complete_selection sel \<Longrightarrow>
   Some sel \<in> set (selections (snd (selector_run acc events))) \<Longrightarrow> complete_selection sel"
proof (induction events arbitrary: acc)
  case Nil
  then show ?case by simp
next
  case (Cons e es)
  let ?acc = "(fst (selector_step (fst acc) e), snd acc @ snd (selector_step (fst acc) e))"
  have "\<forall>sel. Some sel \<in> set (selections (snd ?acc)) \<longrightarrow> complete_selection sel"
    using Cons.prems(1) selector_step_complete [of _ "fst acc" e]
    by (auto simp: selections_append)
  moreover have "Some sel \<in> set (selections (snd (selector_run ?acc es)))"
    using Cons.prems(2) by simp
  ultimately show ?case by (rule Cons.IH)
qed

lemma mounted_silent: "selections (snd (mounted d)) = []"
  by (simp add: mounted_def selections_notify_effect initial_selector_def)

lemma track_change_step:
  "selector_step st (TrackChange v) =
     (st\<lparr>selectedTrack := v, selectedRace := Str [], selectedDriver := Str [],
         selectedLap := Str [], isComposite := False\<rparr>, snd (handleTrackChange v st))"
  by (simp add: after_handler_def handleTrackChange_def notify_effect_def)

lemma race_change_step:
  "selector_step st (RaceChange v) =
     (st\<lparr>selectedRace := v, selectedDriver := Str [], selectedLap := Str [],
         isComposite := False\<rparr>, [OnSelectionChange None])"
  by (simp add: after_handler_def handleRaceChange_def notify_effect_def)

text \<open>
  C10: in RaceSelector, changing the track sets the race, the driver and the lap
  to empty and the composite flag to false, and at once calls
  \<open>onSelectionChange(null)\<close>, the only selection that change emits; changing the
  race resets the driver, the lap and the composite flag and emits exactly the
  null selection. A selection that is not null is only emitted in a state where
  the composite option is chosen with a track or where track, race, driver and
  lap are all chosen, and it names them: this holds for every step from every
  state and for everything emitted on a run from the mounted component.
\<close>

theorem race_selector_cascading_reset:
  "selectedTrack (fst (selector_step st (TrackChange v))) = v
   \<and> selectedRace (fst (selector_step st (TrackChange v))) = Str []
   \<and> selectedDriver (fst (selector_step st (TrackChange v))) = Str []
   \<and> selectedLap (fst (selector_step st (TrackChange v))) = Str []
   \<and> \<not> isComposite (fst (selector_step st (TrackChange v)))
   \<and> hd (snd (selector_step st (TrackChange v))) = OnSelectionChange None
   \<and> selections (snd (selector_step st (TrackChange v))) = [None]
   \<and> selectedRace (fst (selector_step st (RaceChange v))) = v
   \<and> selectedDriver (fst (selector_step st (RaceChange v))) = Str []
   \<and> selectedLap (fst (selector_step st (RaceChange v))) = Str []
   \<and> \<not> isComposite (fst (selector_step st (RaceChange v)))
   \<and> snd (selector_step st (RaceChange v)) = [OnSelectionChange None]
   \<and> (Some sel \<in> set (selections (snd (selector_step st e))) \<longrightarrow>
         complete_state (fst (selector_step st e)) \<and> complete_selection sel)
   \<and> (Some sel \<in> set (selections (snd (selector_run (mounted d) events))) \<longrightarrow>
         complete_selection sel)"
proof -
  have hd_null: "hd (snd (selector_step st (TrackChange v))) = OnSelectionChange None"
    unfolding track_change_step by (simp add: handleTrackChange_def)
  have sel_null: "selections (snd (selector_step st (TrackChange v))) = [None]"
    unfolding track_change_step by (simp add: selections_handleTrackChange)
  have track: "selectedTrack (fst (selector_step st (TrackChange v))) = v"
    "selectedRace (fst (selector_step st (TrackChange v))) = Str []"
    "selectedDriver (fst (selector_step st (TrackChange v))) = Str []"
    "selectedLap (fst (selector_step st (TrackChange v))) = Str []"
    "\<not> isComposite (fst (selector_step st (TrackChange v)))"
    unfolding track_change_step by simp_all
  have race: "selectedRace (fst (selector_step st (RaceChange v))) = v"
    "selectedDriver (fst (selector_step st (RaceChange v))) = Str []"
    "selectedLap (fst (selector_step st (RaceChange v))) = Str []"
    "\<not> isComposite (fst (selector_step st (RaceChange v)))"
    "snd (selector_step st (RaceChange v)) = [OnSelectionChange None]"
    unfolding race_change_step by simp_all
  have step: "Some sel \<in> set (selections (snd (selector_step st e))) \<longrightarrow>
         complete_state (fst (selector_step st e)) \<and> complete_selection sel"
    using selector_step_complete by blast
  have run: "Some sel \<in> set (selections (snd (selector_run (mounted d) events))) \<longrightarrow>
         complete_selection sel"
    using selector_run_complete [of "mounted d" sel events] by (simp add: mounted_silent)
  show ?thesis
    by (intro conjI) (rule track race hd_null sel_null step run)+
qed

lemma demo_run:
  "selections (snd (selector_run (mounted demo_api) demo_events)) =
     [None, Some demo_composite_selection, None, None, Some demo_lap_selection]"
  by (simp add: demo_events_def mounted_def initial_selector_def after_handler_def
      handleTrackChange_def handleRaceChange_def handleDriverChange_def handleLapChange_def
      notify_effect_def selection_changed_def demo_api_def demo_lap_selection_def
      demo_composite_selection_def)

theorem race_selector_cascading_reset_witness:
  "Some demo_lap_selection \<in> set (selections (snd (selector_run (mounted demo_api) demo_events)))
   \<and> complete_selection demo_lap_selection
   \<and> Some demo_composite_selection \<in> set (selections (snd (selector_run (mounted demo_api) demo_events)))
   \<and> complete_selection demo_composite_selection
   \<and> selections (snd (selector_step (initial_selector demo_api) (TrackChange (Str ''1'')))) = [None]"
proof -
  have m1: "Some demo_lap_selection \<in> set (selections (snd (selector_run (mounted demo_api) demo_events)))"
    and m2: "Some demo_composite_selection \<in> set (selections (snd (selector_run (mounted demo_api) demo_events)))"
    by (simp_all add: demo_run)
  note a = race_selector_cascading_reset [of "initial_selector demo_api" "Str ''1''"
      demo_lap_selection "TrackChange (Str ''1'')" demo_api demo_events]
  note b = race_selector_cascading_reset [of "initial_selector demo_api" "Str ''1''"
      demo_composite_selection "TrackChange (Str ''1'')" demo_api demo_events]
  have c1: "complete_selection demo_lap_selection" using a m1 by blast
  have c2: "complete_selection demo_composite_selection" using b m2 by blast
  have n: "selections (snd (selector_step (initial_selector demo_api) (TrackChange (Str ''1'')))) = [None]"
    using a by blast
  show ?thesis by (intro conjI) (rule m1 c1 m2 c2 n)+
qed

end
